theory Spec2Isabelle
  imports Complex_Main "HOL-Library.Word"
begin

unbundle bit_operations_syntax

section \<open>Data model of the adapter layer (nd\_image.c)\<close>

subsection \<open>Element types, descriptors and array objects\<close>

text \<open>
  The element type tags of \<^verbatim>\<open>enum NPY_TYPES\<close>. The enumeration is declared in the
  NumPy headers, which are not among the sources; the adapter only compares tags, names
  \<^verbatim>\<open>NPY_NOTYPE\<close> ("any"), \<^verbatim>\<open>NPY_DOUBLE\<close> and \<^verbatim>\<open>NPY_INTP\<close>.
\<close>

datatype NPY_TYPES =
    NPY_BOOL | NPY_BYTE | NPY_UBYTE | NPY_SHORT | NPY_USHORT | NPY_INT | NPY_UINT
  | NPY_LONG | NPY_ULONG | NPY_LONGLONG | NPY_ULONGLONG
  | NPY_FLOAT | NPY_DOUBLE | NPY_LONGDOUBLE
  | NPY_CFLOAT | NPY_CDOUBLE | NPY_CLONGDOUBLE
  | NPY_OBJECT | NPY_STRING | NPY_UNICODE | NPY_VOID
  | NPY_DATETIME | NPY_TIMEDELTA | NPY_HALF
  | NPY_NOTYPE

text \<open>\<^verbatim>\<open>NPY_INTP\<close> is a platform macro; on an LP64 platform it is \<^verbatim>\<open>NPY_LONG\<close>.\<close>

definition NPY_INTP :: NPY_TYPES where
  "NPY_INTP = NPY_LONG"

text \<open>
  One element of an array buffer. A double is carried as the real number it denotes: the
  adapter only copies doubles, it never computes with them. \<open>Uninitialized\<close> is the
  content of a buffer that was allocated and not yet written.
\<close>

datatype npy_scalar = Intp int | Double real | Uninitialized

record PyArray_Descr =
  type_num :: NPY_TYPES
  swapped :: bool

type_synonym addr = nat

text \<open>
  The fields of \<^verbatim>\<open>PyArrayObject\<close> the adapter reads or writes: the buffer (row-major
  logical contents), the dimensions, the descriptor, the flag word and the base object.
\<close>

record PyArrayObject =
  data :: "npy_scalar list"
  dimensions :: "nat list"
  descr :: PyArray_Descr
  flags :: "32 word"
  base :: "addr option"

text \<open>
  Modelled from the spec: the flag constants are declared in the NumPy headers
  (ndarraytypes.h), which are not among the sources. They are the properties a
  CoercionRequest draws from, "contiguous, aligned, native-byte-order, writable,
  force-copy", the ownership of the buffer and the mark of a scheduled write-back, with
  the bit values NumPy gives them.
\<close>

definition NPY_ARRAY_C_CONTIGUOUS :: "32 word" where "NPY_ARRAY_C_CONTIGUOUS = 0x0001"
definition NPY_ARRAY_OWNDATA :: "32 word" where "NPY_ARRAY_OWNDATA = 0x0004"
definition NPY_ARRAY_ENSURECOPY :: "32 word" where "NPY_ARRAY_ENSURECOPY = 0x0020"
definition NPY_ARRAY_ALIGNED :: "32 word" where "NPY_ARRAY_ALIGNED = 0x0100"
definition NPY_ARRAY_NOTSWAPPED :: "32 word" where "NPY_ARRAY_NOTSWAPPED = 0x0200"
definition NPY_ARRAY_WRITEABLE :: "32 word" where "NPY_ARRAY_WRITEABLE = 0x0400"
definition NPY_ARRAY_UPDATEIFCOPY :: "32 word" where "NPY_ARRAY_UPDATEIFCOPY = 0x1000"

definition NPY_ARRAY_CARRAY :: "32 word" where
  "NPY_ARRAY_CARRAY = NPY_ARRAY_C_CONTIGUOUS OR NPY_ARRAY_ALIGNED OR NPY_ARRAY_WRITEABLE"

text \<open>
  Modelled from the spec: the accessor macros of the NumPy headers are not among the
  sources. They read the fields of an NDArrayView: its rank, its dimension sizes, its
  element count ("product of dimension sizes"), its element type tag and its flags.
\<close>

definition PyArray_NDIM :: "PyArrayObject \<Rightarrow> nat" where
  "PyArray_NDIM a = length (dimensions a)"

definition PyArray_SIZE :: "PyArrayObject \<Rightarrow> nat" where
  "PyArray_SIZE a = prod_list (dimensions a)"

definition PyArray_TYPE :: "PyArrayObject \<Rightarrow> NPY_TYPES" where
  "PyArray_TYPE a = type_num (descr a)"

definition PyArray_CHKFLAGS :: "PyArrayObject \<Rightarrow> 32 word \<Rightarrow> bool" where
  "PyArray_CHKFLAGS a f = (flags a AND f = f)"

definition PyArray_ISBYTESWAPPED :: "PyArrayObject \<Rightarrow> bool" where
  "PyArray_ISBYTESWAPPED a = swapped (descr a)"

definition PyArray_ISALIGNED :: "PyArrayObject \<Rightarrow> bool" where
  "PyArray_ISALIGNED a = PyArray_CHKFLAGS a NPY_ARRAY_ALIGNED"

definition PyArray_ISCONTIGUOUS :: "PyArrayObject \<Rightarrow> bool" where
  "PyArray_ISCONTIGUOUS a = PyArray_CHKFLAGS a NPY_ARRAY_C_CONTIGUOUS"

definition PyArray_ISWRITEABLE :: "PyArrayObject \<Rightarrow> bool" where
  "PyArray_ISWRITEABLE a = PyArray_CHKFLAGS a NPY_ARRAY_WRITEABLE"

text \<open>
  Modelled from the spec: the macro \<^verbatim>\<open>PyArray_ISCARRAY\<close> of the NumPy headers is not
  among the sources; the glossary's canonical layout is "contiguous, aligned,
  native-byte-order, and writable".
\<close>

definition PyArray_ISCARRAY :: "PyArrayObject \<Rightarrow> bool" where
  "PyArray_ISCARRAY a =
     (PyArray_CHKFLAGS a NPY_ARRAY_CARRAY \<and> \<not> PyArray_ISBYTESWAPPED a)"

subsection \<open>Host objects, errors and the object store\<close>

text \<open>
  What a \<^verbatim>\<open>void *\<close> taken out of a capsule really points to: nothing, a coordinate list
  of the morphology engine (named by a number), or something else.
\<close>

datatype voidptr = NULL | CoordinateList nat | Foreign nat

datatype pyobj =
    Py_None
  | PyLong int
  | PyFloat real
  | PyTuple "pyobj list"
  | PyList "pyobj list"
  | PyDict "(string \<times> pyobj) list"
  | PySlice pyobj pyobj pyobj
  | PyCapsule voidptr "string option"
  | Ndarray PyArrayObject
  | PyObject string

text \<open>
  A failed call: the exception left in the error indicator, or \<open>NullDereference\<close> when
  the C code reads through a null pointer, or \<open>OutOfBounds\<close> when it reads or writes
  outside a buffer (no exception in either case; the behaviour of the process is lost).
\<close>

datatype error =
    PyExc_TypeError string
  | PyExc_RuntimeError string
  | PyExc_MemoryError
  | PyExc_SystemError
  | PyExc_IndexError
  | HostException string
  | NullDereference
  | OutOfBounds

text \<open>
  The object store: object number \<open>a\<close> lives in cell \<open>a\<close>, a new object takes the next
  cell. \<open>mem\<close> counts the allocations that will still succeed.
\<close>

record pycell =
  ob_refcnt :: nat
  ob_val :: pyobj

record world =
  objs :: "pycell list"
  mem :: nat

definition deref :: "world \<Rightarrow> addr \<Rightarrow> pyobj option" where
  "deref w a = (if a < length (objs w) then Some (ob_val (objs w ! a)) else None)"

definition Py_INCREF :: "addr \<Rightarrow> world \<Rightarrow> world" where
  "Py_INCREF a w =
     (if a < length (objs w)
      then w\<lparr>objs := (objs w)[a := (objs w ! a)\<lparr>ob_refcnt := Suc (ob_refcnt (objs w ! a))\<rparr>]\<rparr>
      else w)"

definition Py_DECREF :: "addr \<Rightarrow> world \<Rightarrow> world" where
  "Py_DECREF a w =
     (if a < length (objs w)
      then w\<lparr>objs := (objs w)[a := (objs w ! a)\<lparr>ob_refcnt := ob_refcnt (objs w ! a) - 1\<rparr>]\<rparr>
      else w)"

definition modify_array :: "(PyArrayObject \<Rightarrow> PyArrayObject) \<Rightarrow> addr \<Rightarrow> world \<Rightarrow> world" where
  "modify_array f a w =
     (case deref w a of
        Some (Ndarray arr) \<Rightarrow>
          w\<lparr>objs := (objs w)[a := (objs w ! a)\<lparr>ob_val := Ndarray (f arr)\<rparr>]\<rparr>
      | _ \<Rightarrow> w)"

definition PyArray_ENABLEFLAGS :: "addr \<Rightarrow> 32 word \<Rightarrow> world \<Rightarrow> world" where
  "PyArray_ENABLEFLAGS a f = modify_array (\<lambda>arr. arr\<lparr>flags := flags arr OR f\<rparr>) a"

definition PyArray_CLEARFLAGS :: "addr \<Rightarrow> 32 word \<Rightarrow> world \<Rightarrow> world" where
  "PyArray_CLEARFLAGS a f = modify_array (\<lambda>arr. arr\<lparr>flags := flags arr AND NOT f\<rparr>) a"

text \<open>
  Modelled from the spec: \<^verbatim>\<open>PyArray_SetBaseObject\<close> (NumPy, not among the sources) links
  the new buffer to the object it stands for ("a ShadowBuffer ... linked to its origin
  view"); it takes over the caller's reference.
\<close>

definition PyArray_SetBaseObject :: "addr \<Rightarrow> addr \<Rightarrow> world \<Rightarrow> world" where
  "PyArray_SetBaseObject ret a = modify_array (\<lambda>arr. arr\<lparr>base := Some a\<rparr>) ret"

text \<open>
  Modelled from the spec: \<^verbatim>\<open>PyArray_DescrFromType\<close> (NumPy, not among the sources) gives
  the descriptor of a "target element type" in native byte order; there is none for "any"
  (\<^verbatim>\<open>NPY_NOTYPE\<close>), and the call returns null.
\<close>

definition PyArray_DescrFromType :: "NPY_TYPES \<Rightarrow> PyArray_Descr option" where
  "PyArray_DescrFromType t =
     (if t = NPY_NOTYPE then None else Some \<lparr>type_num = t, swapped = False\<rparr>)"

text \<open>
  Modelled from the spec: \<^verbatim>\<open>PyArray_Empty\<close> (NumPy, not among the sources) "allocates" an
  owned buffer of the given shape and descriptor (double when the descriptor is null) in
  canonical layout, its contents not written; it returns null when the allocation fails.
\<close>

definition PyArray_Empty ::
  "nat list \<Rightarrow> PyArray_Descr option \<Rightarrow> world \<Rightarrow> (addr \<times> world) option" where
  "PyArray_Empty dims dtype w =
     (if mem w = 0 then None
      else
        let d = (case dtype of None \<Rightarrow> \<lparr>type_num = NPY_DOUBLE, swapped = False\<rparr> | Some d \<Rightarrow> d);
            new = \<lparr>data = replicate (prod_list dims) Uninitialized, dimensions = dims,
                   descr = d, flags = NPY_ARRAY_CARRAY OR NPY_ARRAY_OWNDATA, base = None\<rparr>
        in Some (length (objs w),
                 w\<lparr>objs := objs w @ [\<lparr>ob_refcnt = 1, ob_val = Ndarray new\<rparr>],
                   mem := mem w - 1\<rparr>))"

section \<open>ArrayAdapter\<close>

subsection \<open>The compliance predicate\<close>

text \<open>
  \<^verbatim>\<open>satisfies\<close> (lines 72-97). \<^verbatim>\<open>PyArray_EquivTypenums\<close> belongs to NumPy and depends on
  the platform; it is the parameter \<open>eqv\<close>.
\<close>

definition satisfies ::
  "(NPY_TYPES \<Rightarrow> NPY_TYPES \<Rightarrow> bool) \<Rightarrow> PyArrayObject \<Rightarrow> 32 word \<Rightarrow> NPY_TYPES \<Rightarrow> bool" where
  "satisfies eqv a requirements t =
     (let type_ok = (t = NPY_NOTYPE \<or> eqv (PyArray_TYPE a) t) in
      if PyArray_ISCARRAY a then type_ok
      else if PyArray_ISBYTESWAPPED a \<and> requirements AND NPY_ARRAY_NOTSWAPPED \<noteq> 0 then False
      else if \<not> PyArray_ISALIGNED a \<and> requirements AND NPY_ARRAY_ALIGNED \<noteq> 0 then False
      else if \<not> PyArray_ISCONTIGUOUS a \<and> requirements AND NPY_ARRAY_C_CONTIGUOUS \<noteq> 0 then False
      else if \<not> PyArray_ISWRITEABLE a \<and> requirements AND NPY_ARRAY_WRITEABLE \<noteq> 0 then False
      else if requirements AND NPY_ARRAY_ENSURECOPY \<noteq> 0 then False
      else type_ok)"

text \<open>
  The predicate in the words of the specification's first sentence: the type matches or
  "any" was requested, every requested flag holds, and force-copy was not requested.
\<close>

definition spec_compliant ::
  "(NPY_TYPES \<Rightarrow> NPY_TYPES \<Rightarrow> bool) \<Rightarrow> PyArrayObject \<Rightarrow> 32 word \<Rightarrow> NPY_TYPES \<Rightarrow> bool" where
  "spec_compliant eqv a requirements t =
     ((t = NPY_NOTYPE \<or> eqv (PyArray_TYPE a) t) \<and>
      (requirements AND NPY_ARRAY_NOTSWAPPED = 0 \<or> \<not> PyArray_ISBYTESWAPPED a) \<and>
      (requirements AND NPY_ARRAY_ALIGNED = 0 \<or> PyArray_ISALIGNED a) \<and>
      (requirements AND NPY_ARRAY_C_CONTIGUOUS = 0 \<or> PyArray_ISCONTIGUOUS a) \<and>
      (requirements AND NPY_ARRAY_WRITEABLE = 0 \<or> PyArray_ISWRITEABLE a) \<and>
      requirements AND NPY_ARRAY_ENSURECOPY = 0)"

subsection \<open>Output views\<close>

text \<open>\<^verbatim>\<open>NA_OutputArray\<close> (lines 99-131).\<close>

definition NA_OutputArray ::
  "(NPY_TYPES \<Rightarrow> NPY_TYPES \<Rightarrow> bool) \<Rightarrow> addr \<Rightarrow> NPY_TYPES \<Rightarrow> 32 word \<Rightarrow> world
     \<Rightarrow> (error + addr) \<times> world" where
  "NA_OutputArray eqv a t requires w =
     (case deref w a of
        None \<Rightarrow> (Inl NullDereference, w)
      | Some (Ndarray arr) \<Rightarrow>
          if \<not> PyArray_ISWRITEABLE arr
          then (Inl (PyExc_TypeError ''NA_OutputArray: only writeable arrays work for output.''), w)
          else if satisfies eqv arr requires t
          then (Inr a, Py_INCREF a w)
          else
            let dtype = (if t = NPY_NOTYPE then Some (descr arr) else PyArray_DescrFromType t)
            in (case PyArray_Empty (dimensions arr) dtype w of
                  None \<Rightarrow> (Inl NullDereference, w)
                | Some (ret, w1) \<Rightarrow>
                    let w2 = PyArray_ENABLEFLAGS ret NPY_ARRAY_UPDATEIFCOPY w1;
                        w3 = Py_INCREF a w2;
                        w4 = PyArray_SetBaseObject ret a w3;
                        w5 = PyArray_CLEARFLAGS a NPY_ARRAY_WRITEABLE w4
                    in (Inr ret, w5))
      | Some _ \<Rightarrow>
          (Inl (PyExc_TypeError ''NA_OutputArray: only writeable arrays work for output.''), w))"

subsection \<open>Input and input/output views\<close>

text \<open>
  Modelled from the spec: element conversion inside \<^verbatim>\<open>PyArray_CheckFromAny\<close> (NumPy, not
  among the sources). A host integer converts to every numeric type, a host float only to
  a floating type or to "any"; everything else is "non-integral" and does not convert.
\<close>

definition is_integer_type :: "NPY_TYPES \<Rightarrow> bool" where
  "is_integer_type t =
     (t \<in> {NPY_BYTE, NPY_UBYTE, NPY_SHORT, NPY_USHORT, NPY_INT, NPY_UINT,
            NPY_LONG, NPY_ULONG, NPY_LONGLONG, NPY_ULONGLONG})"

definition is_float_type :: "NPY_TYPES \<Rightarrow> bool" where
  "is_float_type t = (t \<in> {NPY_FLOAT, NPY_DOUBLE, NPY_LONGDOUBLE, NPY_HALF})"

fun to_scalar :: "NPY_TYPES \<Rightarrow> pyobj \<Rightarrow> npy_scalar option" where
  "to_scalar t (PyLong n) =
     (if t = NPY_NOTYPE \<or> is_integer_type t then Some (Intp n)
      else if is_float_type t then Some (Double (of_int n))
      else None)"
| "to_scalar t (PyFloat r) =
     (if t = NPY_NOTYPE \<or> is_float_type t then Some (Double r) else None)"
| "to_scalar t _ = None"

fun to_scalars :: "NPY_TYPES \<Rightarrow> pyobj list \<Rightarrow> npy_scalar list option" where
  "to_scalars t [] = Some []"
| "to_scalars t (x # xs) =
     (case to_scalar t x of
        None \<Rightarrow> None
      | Some v \<Rightarrow> (case to_scalars t xs of None \<Rightarrow> None | Some vs \<Rightarrow> Some (v # vs)))"

text \<open>The element type a converted host sequence gets when "any" was requested.\<close>

fun is_double :: "npy_scalar \<Rightarrow> bool" where
  "is_double (Double r) = True"
| "is_double _ = False"

definition default_type :: "npy_scalar list \<Rightarrow> NPY_TYPES" where
  "default_type vs = (if list_ex is_double vs then NPY_DOUBLE else NPY_LONG)"

text \<open>A new owned array object in canonical layout; null when the allocation fails.\<close>

definition new_array ::
  "npy_scalar list \<Rightarrow> nat list \<Rightarrow> PyArray_Descr \<Rightarrow> world \<Rightarrow> (addr \<times> world) option" where
  "new_array xs dims d w =
     (if mem w = 0 then None
      else Some (length (objs w),
                 w\<lparr>objs := objs w @
                      [\<lparr>ob_refcnt = 1,
                        ob_val = Ndarray \<lparr>data = xs, dimensions = dims, descr = d,
                                   flags = NPY_ARRAY_CARRAY OR NPY_ARRAY_OWNDATA, base = None\<rparr>\<rparr>],
                   mem := mem w - 1\<rparr>))"

text \<open>
  Modelled from the spec: \<^verbatim>\<open>PyArray_CheckFromAny\<close> (NumPy, not among the sources), the
  routine behind InputView and IoView. An array that is compliant (the predicate
  \<^verbatim>\<open>satisfies\<close>) is returned itself ("read-only borrow, copies only on type/layout
  mismatch"). Otherwise its "current contents" are copied into a new canonical buffer; when
  the requirements hold \<^verbatim>\<open>NPY_ARRAY_UPDATEIFCOPY\<close> the copy-back is scheduled as
  \<^verbatim>\<open>NA_OutputArray\<close> schedules its write-back: the buffer carries the flag, its base is the
  source, and the source loses write permission. A host sequence is converted element by
  element and fails with a TypeError ("TypeConversionError") "if elements are
  non-integral"; a failed allocation is a MemoryError ("AllocationError").
\<close>

definition PyArray_CheckFromAny ::
  "(NPY_TYPES \<Rightarrow> NPY_TYPES \<Rightarrow> bool) \<Rightarrow> addr \<Rightarrow> PyArray_Descr option \<Rightarrow> 32 word \<Rightarrow> world
     \<Rightarrow> (error + addr) \<times> world" where
  "PyArray_CheckFromAny eqv a dtype requires w =
     (let t = (case dtype of None \<Rightarrow> NPY_NOTYPE | Some d \<Rightarrow> type_num d) in
      case deref w a of
        None \<Rightarrow> (Inl NullDereference, w)
      | Some (Ndarray arr) \<Rightarrow>
          if satisfies eqv arr requires t then (Inr a, Py_INCREF a w)
          else
            (case new_array (data arr) (dimensions arr)
                    (case dtype of None \<Rightarrow> (descr arr)\<lparr>swapped := False\<rparr> | Some d \<Rightarrow> d) w of
               None \<Rightarrow> (Inl PyExc_MemoryError, w)
             | Some (ret, w1) \<Rightarrow>
                 if requires AND NPY_ARRAY_UPDATEIFCOPY \<noteq> 0
                 then
                   let w2 = PyArray_ENABLEFLAGS ret NPY_ARRAY_UPDATEIFCOPY w1;
                       w3 = Py_INCREF a w2;
                       w4 = PyArray_SetBaseObject ret a w3;
                       w5 = PyArray_CLEARFLAGS a NPY_ARRAY_WRITEABLE w4
                   in (Inr ret, w5)
                 else (Inr ret, w1))
      | Some (PyList xs) \<Rightarrow>
          (case to_scalars t xs of
             None \<Rightarrow> (Inl (PyExc_TypeError ''Cannot cast array data to the requested type''), w)
           | Some vs \<Rightarrow>
               (case new_array vs [length vs]
                      (case dtype of None \<Rightarrow> \<lparr>type_num = default_type vs, swapped = False\<rparr>
                                   | Some d \<Rightarrow> d) w of
                  None \<Rightarrow> (Inl PyExc_MemoryError, w)
                | Some (ret, w1) \<Rightarrow> (Inr ret, w1)))
      | Some (PyTuple xs) \<Rightarrow>
          (case to_scalars t xs of
             None \<Rightarrow> (Inl (PyExc_TypeError ''Cannot cast array data to the requested type''), w)
           | Some vs \<Rightarrow>
               (case new_array vs [length vs]
                      (case dtype of None \<Rightarrow> \<lparr>type_num = default_type vs, swapped = False\<rparr>
                                   | Some d \<Rightarrow> d) w of
                  None \<Rightarrow> (Inl PyExc_MemoryError, w)
                | Some (ret, w1) \<Rightarrow> (Inr ret, w1)))
      | Some _ \<Rightarrow> (Inl (PyExc_TypeError ''Cannot cast array data to the requested type''), w))"

text \<open>\<^verbatim>\<open>NA_InputArray\<close> (lines 55-67).\<close>

definition NA_InputArray ::
  "(NPY_TYPES \<Rightarrow> NPY_TYPES \<Rightarrow> bool) \<Rightarrow> addr \<Rightarrow> NPY_TYPES \<Rightarrow> 32 word \<Rightarrow> world
     \<Rightarrow> (error + addr) \<times> world" where
  "NA_InputArray eqv a t requires w =
     (let dtype = (if t = NPY_NOTYPE then None else PyArray_DescrFromType t)
      in PyArray_CheckFromAny eqv a dtype requires w)"

text \<open>
  Modelled from the spec: the macro \<^verbatim>\<open>PyArray_XDECREF_ERR\<close> of the NumPy headers is not
  among the sources. "On failure, any ShadowBuffer created for the failed call is released
  without write-back": the copy-back is called off (the flag is cleared and the base is
  writable again) and the reference is dropped.
\<close>

definition PyArray_XDECREF_ERR :: "addr \<Rightarrow> world \<Rightarrow> world" where
  "PyArray_XDECREF_ERR p w =
     (case deref w p of
        Some (Ndarray arr) \<Rightarrow>
          if flags arr AND NPY_ARRAY_UPDATEIFCOPY \<noteq> 0
          then
            let w1 = (case base arr of
                        None \<Rightarrow> w
                      | Some b \<Rightarrow> PyArray_ENABLEFLAGS b NPY_ARRAY_WRITEABLE w);
                w2 = PyArray_CLEARFLAGS p NPY_ARRAY_UPDATEIFCOPY w1
            in Py_DECREF p w2
          else Py_DECREF p w
      | _ \<Rightarrow> Py_DECREF p w)"

text \<open>\<^verbatim>\<open>NA_IoArray\<close> (lines 141-161).\<close>

definition NA_IoArray ::
  "(NPY_TYPES \<Rightarrow> NPY_TYPES \<Rightarrow> bool) \<Rightarrow> addr \<Rightarrow> NPY_TYPES \<Rightarrow> 32 word \<Rightarrow> world
     \<Rightarrow> (error + addr) \<times> world" where
  "NA_IoArray eqv a t requires w =
     (case NA_InputArray eqv a t (requires OR NPY_ARRAY_UPDATEIFCOPY) w of
        (Inl e, w1) \<Rightarrow> (Inl e, w1)
      | (Inr shadow, w1) \<Rightarrow>
          (case deref w1 shadow of
             Some (Ndarray sarr) \<Rightarrow>
               if \<not> PyArray_ISWRITEABLE sarr
               then (Inl (PyExc_TypeError ''NA_IoArray: I/O array must be writable array''),
                     PyArray_XDECREF_ERR shadow w1)
               else (Inr shadow, w1)
           | _ \<Rightarrow> (Inl NullDereference, w1)))"

section \<open>SequenceAdapter\<close>

text \<open>\<^verbatim>\<open>malloc\<close>: succeeds while allocations remain.\<close>

definition malloc :: "world \<Rightarrow> world option" where
  "malloc w = (if mem w = 0 then None else Some (w\<lparr>mem := mem w - 1\<rparr>))"

text \<open>
  \<^verbatim>\<open>NI_ObjectToLongSequenceAndLength\<close> (lines 272-290). The result of \<^verbatim>\<open>NA_InputArray\<close> is
  handed to \<^verbatim>\<open>PyArray_SIZE\<close> without a null check, so a failed conversion is read through
  a null pointer. On success the result is the new buffer (the cells of \<^verbatim>\<open>*sequence\<close>) and
  the length.
\<close>

definition NI_ObjectToLongSequenceAndLength ::
  "(NPY_TYPES \<Rightarrow> NPY_TYPES \<Rightarrow> bool) \<Rightarrow> addr \<Rightarrow> world
     \<Rightarrow> (error + npy_scalar list \<times> nat) \<times> world" where
  "NI_ObjectToLongSequenceAndLength eqv object w =
     (case NA_InputArray eqv object NPY_INTP NPY_ARRAY_CARRAY w of
        (Inl e, w1) \<Rightarrow> (Inl NullDereference, w1)
      | (Inr array, w1) \<Rightarrow>
          (case deref w1 array of
             Some (Ndarray arr) \<Rightarrow>
               let len = PyArray_SIZE arr in
               (case malloc w1 of
                  None \<Rightarrow> (Inl PyExc_MemoryError, Py_DECREF array w1)
                | Some w2 \<Rightarrow>
                    let pa = data arr;
                        sequence = map (\<lambda>ii. pa ! ii) [0..<len]
                    in (Inr (sequence, len), Py_DECREF array w2))
           | _ \<Rightarrow> (Inl NullDereference, w1)))"

text \<open>\<^verbatim>\<open>NI_ObjectToLongSequence\<close> (lines 292-296): true when the length is not negative.\<close>

definition NI_ObjectToLongSequence ::
  "(NPY_TYPES \<Rightarrow> NPY_TYPES \<Rightarrow> bool) \<Rightarrow> addr \<Rightarrow> world
     \<Rightarrow> (error + npy_scalar list) \<times> world" where
  "NI_ObjectToLongSequence eqv object w =
     (case NI_ObjectToLongSequenceAndLength eqv object w of
        (Inl e, w1) \<Rightarrow> (Inl e, w1)
      | (Inr (sequence, len), w1) \<Rightarrow> (Inr sequence, w1))"

section \<open>find\_objects\<close>

text \<open>
  From here on host objects are values and the only state is the number of allocations
  that will still succeed: \<^verbatim>\<open>malloc\<close>, \<^verbatim>\<open>PyList_New\<close>, \<^verbatim>\<open>PyTuple_New\<close>,
  \<^verbatim>\<open>PyLong_FromSsize_t\<close>, \<^verbatim>\<open>PySlice_New\<close> and the like each take one.
\<close>

definition alloc :: "nat \<Rightarrow> nat option" where
  "alloc m = (if m = 0 then None else Some (m - 1))"

text \<open>
  The number of \<^verbatim>\<open>npy_intp\<close> cells the \<^verbatim>\<open>malloc\<close> of lines 944-949 provides: the byte
  count is computed in 64 bits and wraps around (\<^verbatim>\<open>sizeof(npy_intp)\<close> is 8).
\<close>

definition regions_cells :: "nat \<Rightarrow> nat \<Rightarrow> nat" where
  "regions_cells ndim max_label =
     (if ndim > 0 then ((2 * max_label * ndim * 8) mod 2 ^ 64) div 8
      else ((max_label * 8) mod 2 ^ 64) div 8)"

text \<open>
  The inner loop of \<^verbatim>\<open>Py_FindObjects\<close> (lines 974-992): one slice per axis \<open>jj\<close>, from
  \<^verbatim>\<open>regions[idx + jj]\<close> to \<^verbatim>\<open>regions[idx + jj + ndim]\<close>.
\<close>

fun find_objects_slices ::
  "int list \<Rightarrow> nat \<Rightarrow> nat \<Rightarrow> nat list \<Rightarrow> nat \<Rightarrow> (error + pyobj list) \<times> nat" where
  "find_objects_slices regions idx ndim [] m = (Inr [], m)"
| "find_objects_slices regions idx ndim (jj # jjs) m =
     (if idx + jj + ndim < length regions
      then
        (case alloc m of
           None \<Rightarrow> (Inl PyExc_MemoryError, m)
         | Some m1 \<Rightarrow>
             (case alloc m1 of
                None \<Rightarrow> (Inl PyExc_MemoryError, m1)
              | Some m2 \<Rightarrow>
                  (case alloc m2 of
                     None \<Rightarrow> (Inl PyExc_MemoryError, m2)
                   | Some m3 \<Rightarrow>
                       (case find_objects_slices regions idx ndim jjs m3 of
                          (Inl e, m4) \<Rightarrow> (Inl e, m4)
                        | (Inr rest, m4) \<Rightarrow>
                            (Inr (PySlice (PyLong (regions ! (idx + jj)))
                                          (PyLong (regions ! (idx + jj + ndim))) Py_None # rest),
                             m4)))))
      else (Inl OutOfBounds, m))"

text \<open>
  The outer loop (lines 965-999): label \<open>ii + 1\<close> has its block at \<open>idx\<close>; a negative
  first cell gives the absent-marker \<^verbatim>\<open>None\<close>, otherwise a tuple of slices.
\<close>

fun find_objects_items ::
  "int list \<Rightarrow> nat \<Rightarrow> nat list \<Rightarrow> nat \<Rightarrow> (error + pyobj list) \<times> nat" where
  "find_objects_items regions ndim [] m = (Inr [], m)"
| "find_objects_items regions ndim (ii # iis) m =
     (let idx = (if ndim > 0 then 2 * ndim * ii else ii) in
      if idx < length regions
      then
        if regions ! idx \<ge> 0
        then
          (case alloc m of
             None \<Rightarrow> (Inl PyExc_MemoryError, m)
           | Some m1 \<Rightarrow>
               (case find_objects_slices regions idx ndim [0..<ndim] m1 of
                  (Inl e, m2) \<Rightarrow> (Inl e, m2)
                | (Inr slices, m2) \<Rightarrow>
                    (case find_objects_items regions ndim iis m2 of
                       (Inl e, m3) \<Rightarrow> (Inl e, m3)
                     | (Inr rest, m3) \<Rightarrow> (Inr (PyTuple slices # rest), m3))))
        else
          (case find_objects_items regions ndim iis m of
             (Inl e, m1) \<Rightarrow> (Inl e, m1)
           | (Inr rest, m1) \<Rightarrow> (Inr (Py_None # rest), m1))
      else (Inl OutOfBounds, m))"

text \<open>
  \<^verbatim>\<open>Py_FindObjects\<close> (lines 928-1017). \<open>args\<close> is what \<^verbatim>\<open>PyArg_ParseTuple\<close> delivers: the
  converted input array and \<^verbatim>\<open>max_label\<close>, or the error of a failed parse. The engine
  kernel \<^verbatim>\<open>NI_FindObjects\<close> is a parameter: given the array, the label count and the number
  of cells of \<^verbatim>\<open>regions\<close>, it yields the filled cells or the error it raised.
\<close>

definition Py_FindObjects ::
  "(PyArrayObject \<Rightarrow> nat \<Rightarrow> nat \<Rightarrow> error + int list) \<Rightarrow> error + PyArrayObject \<times> int \<Rightarrow> nat
     \<Rightarrow> (error + pyobj) \<times> nat" where
  "Py_FindObjects engine args m =
     (case args of
        Inl e \<Rightarrow> (Inl e, m)
      | Inr (input, max_label0) \<Rightarrow>
          let max_label = (if max_label0 < 0 then 0 else nat max_label0);
              ndim = PyArray_NDIM input
          in (case (if max_label > 0
                    then (case alloc m of
                            None \<Rightarrow> None
                          | Some m1 \<Rightarrow> Some (regions_cells ndim max_label, m1))
                    else Some (0, m)) of
                None \<Rightarrow> (Inl PyExc_MemoryError, m)
              | Some (ncells, m1) \<Rightarrow>
                  (case engine input max_label ncells of
                     Inl e \<Rightarrow> (Inl e, m1)
                   | Inr regions \<Rightarrow>
                       (case alloc m1 of
                          None \<Rightarrow> (Inl PyExc_MemoryError, m1)
                        | Some m2 \<Rightarrow>
                            (case find_objects_items regions ndim [0..<max_label] m2 of
                               (Inl e, m3) \<Rightarrow> (Inl e, m3)
                             | (Inr items, m3) \<Rightarrow> (Inr (PyList items), m3))))))"

subsection \<open>The kernel behind find\_objects\<close>

text \<open>Row-major coordinates of the element with flat index \<open>k\<close>.\<close>

fun unravel :: "nat list \<Rightarrow> nat \<Rightarrow> nat list" where
  "unravel [] k = []"
| "unravel (d # ds) k = (k div prod_list ds) mod d # unravel ds (k mod prod_list ds)"

definition label_coords :: "PyArrayObject \<Rightarrow> int \<Rightarrow> nat list list" where
  "label_coords input l =
     map (unravel (dimensions input))
       (filter (\<lambda>k. k < length (data input) \<and> data input ! k = Intp l)
          [0..<PyArray_SIZE input])"

fun lowest :: "nat list \<Rightarrow> nat" where
  "lowest [] = 0"
| "lowest (x # xs) = fold min xs x"

fun highest :: "nat list \<Rightarrow> nat" where
  "highest [] = 0"
| "highest (x # xs) = fold max xs x"

text \<open>
  The cells of one label: per axis the lowest coordinate of its voxels, then per axis the
  highest coordinate plus one; all cells are \<open>-1\<close> when the label has no voxel. For a
  rank-0 array the block is one cell, negative when the label is absent.
\<close>

definition label_block :: "PyArrayObject \<Rightarrow> int \<Rightarrow> int list" where
  "label_block input l =
     (let cs = label_coords input l; ndim = PyArray_NDIM input in
      if ndim = 0 then [if cs = [] then - 1 else 0]
      else if cs = [] then replicate (2 * ndim) (- 1)
      else map (\<lambda>jj. int (lowest (map (\<lambda>c. c ! jj) cs))) [0..<ndim] @
           map (\<lambda>jj. int (highest (map (\<lambda>c. c ! jj) cs)) + 1) [0..<ndim])"

text \<open>
  Modelled from the spec: the kernel \<^verbatim>\<open>NI_FindObjects\<close> (ni\_measure.c) is not among the
  sources. It yields the "ordered sequence of per-label bounding boxes, with an
  absent-marker for labels with no voxels", in the layout \<^verbatim>\<open>Py_FindObjects\<close> reads: the
  block of label \<open>i + 1\<close> at offset \<open>2 * ndim * i\<close>. It fills every block, so a buffer with
  fewer cells than that is written out of bounds.
\<close>

definition NI_FindObjects :: "PyArrayObject \<Rightarrow> nat \<Rightarrow> nat \<Rightarrow> error + int list" where
  "NI_FindObjects input max_label ncells =
     (let ndim = PyArray_NDIM input;
          needed = (if ndim > 0 then 2 * ndim * max_label else max_label)
      in if ncells < needed then Inl OutOfBounds
         else Inr (concat (map (\<lambda>i. label_block input (int i + 1)) [0..<max_label])))"

section \<open>CallbackBridge: the trampolines\<close>

text \<open>
  What a call of the host callable does: it raises, or it returns a value; the second
  component lists the element assignments it made to the output array it was handed, each
  with the double the array then holds (read only by \<^verbatim>\<open>Py_Filter1DFunc\<close>).
\<close>

datatype call_result = Raised error | Returned pyobj "(nat \<times> real) list"

record NI_PythonCallbackData =
  extra_arguments :: pyobj
  extra_keywords :: pyobj

text \<open>The fields of \<^verbatim>\<open>ccallback_t\<close> the trampolines read.\<close>

record ccallback_t =
  py_function :: "pyobj \<Rightarrow> pyobj \<Rightarrow> call_result"
  info_p :: NI_PythonCallbackData

text \<open>
  The interpreter state a trampoline runs in: the error indicator, the allocations that
  will still succeed, and the record of the calls made to the host callable (positional
  argument tuple and named arguments).
\<close>

record pystate =
  err :: "error option"
  budget :: nat
  calls :: "(pyobj \<times> pyobj) list"

definition PyErr_Occurred :: "pystate \<Rightarrow> bool" where
  "PyErr_Occurred s = (err s \<noteq> None)"

definition PyErr_Set :: "error \<Rightarrow> pystate \<Rightarrow> pystate" where
  "PyErr_Set e s = s\<lparr>err := Some e\<rparr>"

text \<open>Creating a host object: null with a MemoryError when no allocation is left.\<close>

definition py_alloc :: "pyobj \<Rightarrow> pystate \<Rightarrow> pyobj option \<times> pystate" where
  "py_alloc v s =
     (if budget s = 0 then (None, PyErr_Set PyExc_MemoryError s)
      else (Some v, s\<lparr>budget := budget s - 1\<rparr>))"

text \<open>\<^verbatim>\<open>NA_NewAllFromBuffer\<close> (lines 163-185).\<close>

definition NA_NewAllFromBuffer ::
  "nat list \<Rightarrow> NPY_TYPES \<Rightarrow> pystate \<Rightarrow> pyobj option \<times> pystate" where
  "NA_NewAllFromBuffer shape type s =
     (let type' = (if type = NPY_NOTYPE then NPY_DOUBLE else type) in
      case PyArray_DescrFromType type' of
        None \<Rightarrow> (None, s)
      | Some dtype \<Rightarrow>
          py_alloc (Ndarray \<lparr>data = replicate (prod_list shape) Uninitialized,
                             dimensions = shape, descr = dtype,
                             flags = NPY_ARRAY_CARRAY OR NPY_ARRAY_OWNDATA, base = None\<rparr>) s)"

text \<open>
  \<^verbatim>\<open>NA_NewAll\<close> (lines 187-209): the new array is filled from the buffer, or with zeros
  when the buffer is null.
\<close>

definition NA_NewAll ::
  "nat list \<Rightarrow> NPY_TYPES \<Rightarrow> real list option \<Rightarrow> pystate \<Rightarrow> pyobj option \<times> pystate" where
  "NA_NewAll shape type buffer s =
     (case NA_NewAllFromBuffer shape type s of
        (None, s1) \<Rightarrow> (None, s1)
      | (Some (Ndarray result), s1) \<Rightarrow>
          (case buffer of
             Some b \<Rightarrow>
               (Some (Ndarray (result\<lparr>data := map (\<lambda>i. Double (b ! i))
                                                [0..<PyArray_SIZE result]\<rparr>)), s1)
           | None \<Rightarrow>
               (Some (Ndarray (result\<lparr>data := replicate (PyArray_SIZE result) (Double 0)\<rparr>)), s1))
      | (Some _, s1) \<Rightarrow> (None, PyErr_Set (PyExc_TypeError ''NA_NewAll: non-NumArray result'') s1))"

text \<open>\<^verbatim>\<open>NA_NewArray\<close> (lines 215-219).\<close>

definition NA_NewArray ::
  "real list option \<Rightarrow> NPY_TYPES \<Rightarrow> nat list \<Rightarrow> pystate \<Rightarrow> pyobj option \<times> pystate" where
  "NA_NewArray buffer type shape s = NA_NewAll shape type buffer s"

text \<open>
  Modelled from the spec: the calls into the host runtime the trampolines make (CPython,
  not among the sources). \<^verbatim>\<open>Py_BuildValue\<close> with a tuple format "wraps native data into a
  host-side object"; \<^verbatim>\<open>PySequence_Concat\<close> "concatenates it with any fixed extra positional
  arguments"; \<^verbatim>\<open>PyObject_Call\<close> "invokes the host callable with any extra named arguments";
  \<^verbatim>\<open>PyTuple_GetItem\<close> and \<^verbatim>\<open>PyFloat_AsDouble\<close> read "the returned coordinate tuple
  element-by-element" and convert "the scalar return". By the documentation of CPython,
  \<^verbatim>\<open>PyTuple_GetItem\<close> answers an index outside the tuple with an IndexError and null (a
  SystemError when the object is no tuple), and \<^verbatim>\<open>PyFloat_AsDouble\<close> answers a null
  argument with a TypeError and \<open>-1\<close>. What it answers for an object depends on the number
  protocol of the object and is the parameter \<open>to_double\<close>: the C double the object
  converts to (a float to its contents, an integer to the nearest double, any other
  object through its \<^verbatim>\<open>__float__\<close> or \<^verbatim>\<open>__index__\<close> method), or the exception the
  conversion raises (a TypeError for an object that is no number, an OverflowError for an
  integer beyond the range of a double, whatever the method of the object raises); on an
  exception the call returns \<open>-1\<close>.
\<close>

definition Py_BuildValue :: "pyobj list \<Rightarrow> pystate \<Rightarrow> pyobj option \<times> pystate" where
  "Py_BuildValue items s = py_alloc (PyTuple items) s"

definition PySequence_Concat :: "pyobj \<Rightarrow> pyobj \<Rightarrow> pystate \<Rightarrow> pyobj option \<times> pystate" where
  "PySequence_Concat a b s =
     (case a of
        PyTuple xs \<Rightarrow>
          (case b of
             PyTuple ys \<Rightarrow> py_alloc (PyTuple (xs @ ys)) s
           | _ \<Rightarrow> (None, PyErr_Set (PyExc_TypeError ''can only concatenate tuple to tuple'') s))
      | _ \<Rightarrow> (None, PyErr_Set (PyExc_TypeError ''object can't be concatenated'') s))"

definition PyObject_Call ::
  "(pyobj \<Rightarrow> pyobj \<Rightarrow> call_result) \<Rightarrow> pyobj \<Rightarrow> pyobj \<Rightarrow> pystate
     \<Rightarrow> (pyobj \<times> (nat \<times> real) list) option \<times> pystate" where
  "PyObject_Call f args kw s =
     (let s1 = s\<lparr>calls := calls s @ [(args, kw)]\<rparr> in
      case f args kw of
        Raised e \<Rightarrow> (None, PyErr_Set e s1)
      | Returned rv writes \<Rightarrow> (Some (rv, writes), s1))"

definition PyTuple_GetItem :: "pyobj \<Rightarrow> nat \<Rightarrow> pystate \<Rightarrow> pyobj option \<times> pystate" where
  "PyTuple_GetItem p i s =
     (case p of
        PyTuple xs \<Rightarrow>
          if i < length xs then (Some (xs ! i), s)
          else (None, PyErr_Set PyExc_IndexError s)
      | _ \<Rightarrow> (None, PyErr_Set PyExc_SystemError s))"

definition PyFloat_AsDouble ::
  "(pyobj \<Rightarrow> error + real) \<Rightarrow> pyobj option \<Rightarrow> pystate \<Rightarrow> real \<times> pystate" where
  "PyFloat_AsDouble to_double p s =
     (case p of
        None \<Rightarrow> (- 1, PyErr_Set (PyExc_TypeError ''bad argument type for built-in operation'') s)
      | Some v \<Rightarrow>
          (case to_double v of
             Inl e \<Rightarrow> (- 1, PyErr_Set e s)
           | Inr r \<Rightarrow> (r, s)))"

text \<open>The status every trampoline returns: \<^verbatim>\<open>PyErr_Occurred() ? 0 : 1\<close>.\<close>

definition exit_status :: "pystate \<Rightarrow> int" where
  "exit_status s = (if PyErr_Occurred s then 0 else 1)"

definition apply_writes :: "(nat \<times> real) list \<Rightarrow> npy_scalar list \<Rightarrow> npy_scalar list" where
  "apply_writes writes xs = fold (\<lambda>(i, v) ys. ys[i := Double v]) writes xs"

fun as_double :: "npy_scalar \<Rightarrow> real" where
  "as_double (Double r) = r"
| "as_double (Intp n) = of_int n"
| "as_double Uninitialized = 0"

text \<open>
  \<^verbatim>\<open>Py_Filter1DFunc\<close> (lines 448-481). The input line \<^verbatim>\<open>iline[0..ilen)\<close> and the output
  line \<^verbatim>\<open>oline[0..olen)\<close> are lists; the result is the status and the output line.
\<close>

definition Py_Filter1DFunc ::
  "real list \<Rightarrow> real list \<Rightarrow> ccallback_t \<Rightarrow> pystate \<Rightarrow> (int \<times> real list) \<times> pystate" where
  "Py_Filter1DFunc iline oline callback s =
     (let cbdata = info_p callback; ilen = length iline; olen = length oline in
      case NA_NewArray (Some iline) NPY_DOUBLE [ilen] s of
        (py_ibuffer, s1) \<Rightarrow>
      case NA_NewArray None NPY_DOUBLE [olen] s1 of
        (py_obuffer, s2) \<Rightarrow>
      (case py_ibuffer of
         None \<Rightarrow> ((exit_status s2, oline), s2)
       | Some ib \<Rightarrow>
      (case py_obuffer of
         None \<Rightarrow> ((exit_status s2, oline), s2)
       | Some ob \<Rightarrow>
      (case Py_BuildValue [ib, ob] s2 of
         (None, s3) \<Rightarrow> ((exit_status s3, oline), s3)
       | (Some tmp, s3) \<Rightarrow>
      (case PySequence_Concat tmp (extra_arguments cbdata) s3 of
         (None, s4) \<Rightarrow> ((exit_status s4, oline), s4)
       | (Some args, s4) \<Rightarrow>
      (case PyObject_Call (py_function callback) args (extra_keywords cbdata) s4 of
         (None, s5) \<Rightarrow> ((exit_status s5, oline), s5)
       | (Some (rv, writes), s5) \<Rightarrow>
           let po = apply_writes writes (replicate olen (Double 0))
           in ((exit_status s5, map (\<lambda>ii. as_double (po ! ii)) [0..<olen]), s5)))))))"

text \<open>
  \<^verbatim>\<open>Py_FilterFunc\<close> (lines 574-601). The result is the status and the value of
  \<^verbatim>\<open>*output\<close>, which is written also when the conversion fails.
\<close>

definition Py_FilterFunc ::
  "(pyobj \<Rightarrow> error + real) \<Rightarrow> real list \<Rightarrow> real \<Rightarrow> ccallback_t \<Rightarrow> pystate
     \<Rightarrow> (int \<times> real) \<times> pystate" where
  "Py_FilterFunc to_double buffer output callback s =
     (let cbdata = info_p callback; filter_size = length buffer in
      case NA_NewArray (Some buffer) NPY_DOUBLE [filter_size] s of
        (None, s1) \<Rightarrow> ((exit_status s1, output), s1)
      | (Some py_buffer, s1) \<Rightarrow>
      (case Py_BuildValue [py_buffer] s1 of
         (None, s2) \<Rightarrow> ((exit_status s2, output), s2)
       | (Some tmp, s2) \<Rightarrow>
      (case PySequence_Concat tmp (extra_arguments cbdata) s2 of
         (None, s3) \<Rightarrow> ((exit_status s3, output), s3)
       | (Some args, s3) \<Rightarrow>
      (case PyObject_Call (py_function callback) args (extra_keywords cbdata) s3 of
         (None, s4) \<Rightarrow> ((exit_status s4, output), s4)
       | (Some (rv, writes), s4) \<Rightarrow>
           (case PyFloat_AsDouble to_double (Some rv) s4 of
              (v, s5) \<Rightarrow> ((exit_status s5, v), s5))))))"

text \<open>The first loop of \<^verbatim>\<open>Py_Map\<close> (lines 773-777): the items of the coordinate tuple.\<close>

fun Py_Map_fill :: "int list \<Rightarrow> pystate \<Rightarrow> pyobj list option \<times> pystate" where
  "Py_Map_fill [] s = (Some [], s)"
| "Py_Map_fill (c # cs) s =
     (case py_alloc (PyLong c) s of
        (item, s1) \<Rightarrow>
          if PyErr_Occurred s1 then (None, s1)
          else
            (case item of
               None \<Rightarrow> (None, s1)
             | Some v \<Rightarrow>
                 (case Py_Map_fill cs s1 of
                    (None, s2) \<Rightarrow> (None, s2)
                  | (Some vs, s2) \<Rightarrow> (Some (v # vs), s2))))"

text \<open>
  The second loop (lines 787-791): element \<open>ii\<close> of the result is converted and stored in
  \<^verbatim>\<open>icoor[ii]\<close>; the loop is left at the first error.
\<close>

fun Py_Map_read ::
  "(pyobj \<Rightarrow> error + real) \<Rightarrow> pyobj \<Rightarrow> nat list \<Rightarrow> real list \<Rightarrow> pystate
     \<Rightarrow> real list \<times> pystate" where
  "Py_Map_read to_double rets [] icoor s = (icoor, s)"
| "Py_Map_read to_double rets (ii # iis) icoor s =
     (case PyTuple_GetItem rets ii s of
        (item, s1) \<Rightarrow>
          (case PyFloat_AsDouble to_double item s1 of
             (v, s2) \<Rightarrow>
               if PyErr_Occurred s2 then (icoor[ii := v], s2)
               else Py_Map_read to_double rets iis (icoor[ii := v]) s2))"

text \<open>
  \<^verbatim>\<open>Py_Map\<close> (lines 762-798). The output coordinates \<^verbatim>\<open>ocoor[0..orank)\<close> and the input
  coordinates \<^verbatim>\<open>icoor[0..irank)\<close> are lists; the result is the status and \<^verbatim>\<open>icoor\<close>.
\<close>

definition Py_Map ::
  "(pyobj \<Rightarrow> error + real) \<Rightarrow> int list \<Rightarrow> real list \<Rightarrow> ccallback_t \<Rightarrow> pystate
     \<Rightarrow> (int \<times> real list) \<times> pystate" where
  "Py_Map to_double ocoor icoor callback s =
     (let cbdata = info_p callback; orank = length ocoor; irank = length icoor in
      case py_alloc (PyTuple (replicate orank Py_None)) s of
        (None, s1) \<Rightarrow> ((exit_status s1, icoor), s1)
      | (Some _, s1) \<Rightarrow>
      (case Py_Map_fill ocoor s1 of
         (None, s2) \<Rightarrow> ((exit_status s2, icoor), s2)
       | (Some items, s2) \<Rightarrow>
      (case Py_BuildValue [PyTuple items] s2 of
         (None, s3) \<Rightarrow> ((exit_status s3, icoor), s3)
       | (Some tmp, s3) \<Rightarrow>
      (case PySequence_Concat tmp (extra_arguments cbdata) s3 of
         (None, s4) \<Rightarrow> ((exit_status s4, icoor), s4)
       | (Some args, s4) \<Rightarrow>
      (case PyObject_Call (py_function callback) args (extra_keywords cbdata) s4 of
         (None, s5) \<Rightarrow> ((exit_status s5, icoor), s5)
       | (Some (rets, writes), s5) \<Rightarrow>
           (case Py_Map_read to_double rets [0..<irank] icoor s5 of
              (icoor', s6) \<Rightarrow> ((exit_status s6, icoor'), s6)))))))"

text \<open>
  Modelled from the spec: the engine kernels (\<^verbatim>\<open>NI_GenericFilter1D\<close>, \<^verbatim>\<open>NI_GenericFilter\<close>,
  \<^verbatim>\<open>NI_GeometricTransform\<close>) are not among the sources. "The kernel must check the
  trampoline's return status after every invocation and, on first failure, stop issuing
  further invocations": one invocation per work item, in order; the results of the
  invocations that succeeded are kept, and a failed invocation ends the run with status 0.
\<close>

fun kernel_run ::
  "('w \<Rightarrow> pystate \<Rightarrow> (int \<times> 'r) \<times> pystate) \<Rightarrow> 'w list \<Rightarrow> pystate \<Rightarrow> (int \<times> 'r list) \<times> pystate" where
  "kernel_run tramp [] s = ((1, []), s)"
| "kernel_run tramp (w # ws) s =
     (case tramp w s of
        ((status, r), s1) \<Rightarrow>
          if status = 0 then ((0, []), s1)
          else
            (case kernel_run tramp ws s1 of
               ((st, rs), s2) \<Rightarrow> ((st, r # rs), s2)))"

text \<open>
  The exit every adapter function shares (for example lines 565-571):
  \<^verbatim>\<open>return PyErr_Occurred() ? NULL : Py_BuildValue("")\<close>.
\<close>

definition adapter_exit :: "pystate \<Rightarrow> error + pyobj" where
  "adapter_exit s = (case err s of Some e \<Rightarrow> Inl e | None \<Rightarrow> Inr Py_None)"

section \<open>OpaqueStateHandle: binary\_erosion2\<close>

text \<open>
  Modelled from the spec: the capsule helpers of npy\_3kcompat.h (NumPy) are not among the
  sources. The handle is "an untyped handle" around "a raw pointer" (design notes); the
  source makes it an unnamed capsule (line 1138) and reads unnamed capsules with
  \<^verbatim>\<open>PyCapsule_GetPointer(obj, NULL)\<close> (lines 533, 1105). In their Python 3 form
  \<^verbatim>\<open>NpyCapsule_Check\<close> is \<^verbatim>\<open>PyCapsule_CheckExact\<close>, which tells a capsule from every other
  object, and \<^verbatim>\<open>NpyCapsule_AsVoidPtr\<close> asks for the pointer of an unnamed capsule: it
  answers null, with the error cleared, when the capsule carries a name.
\<close>

fun NpyCapsule_Check :: "pyobj \<Rightarrow> bool" where
  "NpyCapsule_Check (PyCapsule p name) = True"
| "NpyCapsule_Check _ = False"

fun NpyCapsule_AsVoidPtr :: "pyobj \<Rightarrow> voidptr" where
  "NpyCapsule_AsVoidPtr (PyCapsule p None) = p"
| "NpyCapsule_AsVoidPtr _ = NULL"

text \<open>What \<^verbatim>\<open>PyArg_ParseTuple\<close> delivers to \<^verbatim>\<open>Py_BinaryErosion2\<close> (format \<^verbatim>\<open>O&O&O&iO&iO\<close>).\<close>

record erosion2_args =
  array :: PyArrayObject
  strct :: PyArrayObject
  mask_arg :: "PyArrayObject option"
  niter :: int
  origins :: "npy_scalar list"
  invert :: int
  cobj :: pyobj

text \<open>
  \<^verbatim>\<open>Py_BinaryErosion2\<close> (lines 1158-1189). The engine kernel \<^verbatim>\<open>NI_BinaryErosion2\<close> is a
  parameter: it gets the parsed arguments and the pointer taken out of the handle, works
  on the engine's state \<open>'e\<close>, and leaves an error in the indicator or not. The result is
  the value returned to the caller (\<^verbatim>\<open>PyErr_Occurred() ? NULL : Py_BuildValue("")\<close>) and the
  engine's state.
\<close>

definition Py_BinaryErosion2 ::
  "(erosion2_args \<Rightarrow> voidptr \<Rightarrow> 'e \<Rightarrow> error option \<times> 'e) \<Rightarrow> error + erosion2_args \<Rightarrow> 'e
     \<Rightarrow> (error + pyobj) \<times> 'e" where
  "Py_BinaryErosion2 engine parsed st =
     (case parsed of
        Inl e \<Rightarrow> (Inl e, st)
      | Inr args \<Rightarrow>
          if NpyCapsule_Check (cobj args)
          then
            let cobj_data = NpyCapsule_AsVoidPtr (cobj args) in
            (case engine args cobj_data st of
               (Some e, st') \<Rightarrow> (Inl e, st')
             | (None, st') \<Rightarrow> (Inr Py_None, st'))
          else (Inl (PyExc_RuntimeError ''cannot convert CObject''), st))"

section \<open>Vocabulary of the statements\<close>

text \<open>The shadow buffer \<^verbatim>\<open>NA_OutputArray\<close> builds for the array \<open>arr\<close> at address \<open>a\<close>.\<close>

definition shadow_of :: "PyArrayObject \<Rightarrow> addr \<Rightarrow> NPY_TYPES \<Rightarrow> PyArrayObject" where
  "shadow_of arr a t =
     \<lparr>data = replicate (prod_list (dimensions arr)) Uninitialized,
      dimensions = dimensions arr,
      descr = (if t = NPY_NOTYPE then descr arr else \<lparr>type_num = t, swapped = False\<rparr>),
      flags = NPY_ARRAY_CARRAY OR NPY_ARRAY_OWNDATA OR NPY_ARRAY_UPDATEIFCOPY,
      base = Some a\<rparr>"

text \<open>The shadow buffer the modelled \<^verbatim>\<open>PyArray_CheckFromAny\<close> builds for \<^verbatim>\<open>NA_IoArray\<close>: it holds the contents of the source.\<close>

definition io_shadow_of :: "PyArrayObject \<Rightarrow> addr \<Rightarrow> NPY_TYPES \<Rightarrow> PyArrayObject" where
  "io_shadow_of arr a t =
     \<lparr>data = data arr,
      dimensions = dimensions arr,
      descr = (if t = NPY_NOTYPE then (descr arr)\<lparr>swapped := False\<rparr>
               else \<lparr>type_num = t, swapped = False\<rparr>),
      flags = NPY_ARRAY_CARRAY OR NPY_ARRAY_OWNDATA OR NPY_ARRAY_UPDATEIFCOPY,
      base = Some a\<rparr>"

text \<open>The bounding box of label \<open>l\<close> as \<^verbatim>\<open>Py_FindObjects\<close> returns it: per axis the slice from the lowest coordinate to the highest plus one.\<close>

definition bounding_box :: "PyArrayObject \<Rightarrow> int \<Rightarrow> pyobj" where
  "bounding_box input l =
     PyTuple (map (\<lambda>jj. PySlice (PyLong (int (lowest (map (\<lambda>c. c ! jj) (label_coords input l)))))
                               (PyLong (int (highest (map (\<lambda>c. c ! jj) (label_coords input l))) + 1))
                               Py_None)
                [0..<PyArray_NDIM input])"

text \<open>Entry \<open>ii\<close> of the result list, read from the cells of \<^verbatim>\<open>regions\<close>.\<close>

definition find_objects_item :: "int list \<Rightarrow> nat \<Rightarrow> nat \<Rightarrow> pyobj" where
  "find_objects_item regions ndim ii =
     (let idx = (if ndim > 0 then 2 * ndim * ii else ii) in
      if regions ! idx \<ge> 0
      then PyTuple (map (\<lambda>jj. PySlice (PyLong (regions ! (idx + jj)))
                                     (PyLong (regions ! (idx + jj + ndim))) Py_None) [0..<ndim])
      else Py_None)"

text \<open>The one-dimensional double array \<^verbatim>\<open>NA_NewArray\<close> creates around the elements \<open>xs\<close>.\<close>

definition double_array :: "npy_scalar list \<Rightarrow> PyArrayObject" where
  "double_array xs =
     \<lparr>data = xs, dimensions = [length xs],
      descr = \<lparr>type_num = NPY_DOUBLE, swapped = False\<rparr>,
      flags = NPY_ARRAY_CARRAY OR NPY_ARRAY_OWNDATA, base = None\<rparr>"

text \<open>The host callable was not called between the states \<open>s\<close> and \<open>s'\<close>.\<close>

definition not_called :: "pystate \<Rightarrow> pystate \<Rightarrow> bool" where
  "not_called s s' = (calls s' = calls s)"

text \<open>The host callable was called once between \<open>s\<close> and \<open>s'\<close>: with the native data followed by the declared extra positional arguments, and with the declared named arguments.\<close>

definition called_once_with :: "pyobj list \<Rightarrow> ccallback_t \<Rightarrow> pystate \<Rightarrow> pystate \<Rightarrow> bool" where
  "called_once_with native callback s s' =
     (case extra_arguments (info_p callback) of
        PyTuple extras \<Rightarrow>
          calls s' = calls s @ [(PyTuple (native @ extras), extra_keywords (info_p callback))]
      | _ \<Rightarrow> False)"

fun is_tuple :: "pyobj \<Rightarrow> bool" where
  "is_tuple (PyTuple xs) = True"
| "is_tuple _ = False"

text \<open>What the callable did: it returned; it returned a value that converts to a double; it returned a tuple that has, at every index below the input rank, an element that converts to a double.\<close>

fun returned :: "call_result \<Rightarrow> bool" where
  "returned (Returned rv writes) = True"
| "returned (Raised e) = False"

definition converts :: "(pyobj \<Rightarrow> error + real) \<Rightarrow> pyobj \<Rightarrow> bool" where
  "converts to_double v = (case to_double v of Inl e \<Rightarrow> False | Inr r \<Rightarrow> True)"

fun returned_number :: "(pyobj \<Rightarrow> error + real) \<Rightarrow> call_result \<Rightarrow> bool" where
  "returned_number to_double (Returned rv writes) = converts to_double rv"
| "returned_number to_double (Raised e) = False"

definition coordinate_ok :: "(pyobj \<Rightarrow> error + real) \<Rightarrow> pyobj \<Rightarrow> nat \<Rightarrow> bool" where
  "coordinate_ok to_double rets ii =
     (case rets of PyTuple rs \<Rightarrow> ii < length rs \<and> converts to_double (rs ! ii) | _ \<Rightarrow> False)"

fun returned_coordinates :: "(pyobj \<Rightarrow> error + real) \<Rightarrow> nat \<Rightarrow> call_result \<Rightarrow> bool" where
  "returned_coordinates to_double irank (Returned rets writes) =
     list_all (coordinate_ok to_double rets) [0..<irank]"
| "returned_coordinates to_double irank (Raised e) = False"

text \<open>
  A kernel run has made the invocations for the work items \<open>ws\<close>, all of which succeeded,
  and the invocation for the next item \<open>w\<close> returns the failure status.
\<close>

definition fails_first_at ::
  "('w \<Rightarrow> pystate \<Rightarrow> (int \<times> 'r) \<times> pystate) \<Rightarrow> 'w list \<Rightarrow> 'w \<Rightarrow> pystate \<Rightarrow> bool" where
  "fails_first_at tramp ws w s =
     (case kernel_run tramp ws s of
        ((st, rs), s1) \<Rightarrow> st \<noteq> 0 \<and> fst (fst (tramp w s1)) = 0)"

text \<open>
  The kernel run over \<open>ws\<close>, \<open>w\<close> and the further items \<open>ws'\<close> aborts at \<open>w\<close>: it ends with
  status 0 in the state the invocation for \<open>w\<close> left, its results are those of the
  invocations for \<open>ws\<close>, and the adapter's exit returns an error to the caller.
\<close>

definition aborts_at ::
  "('w \<Rightarrow> pystate \<Rightarrow> (int \<times> 'r) \<times> pystate) \<Rightarrow> 'w list \<Rightarrow> 'w \<Rightarrow> 'w list \<Rightarrow> pystate
     \<Rightarrow> bool" where
  "aborts_at tramp ws w ws' s =
     (case kernel_run tramp ws s of
        ((st, rs), s1) \<Rightarrow>
          kernel_run tramp (ws @ w # ws') s = ((0, rs), snd (tramp w s1)) \<and>
          (case adapter_exit (snd (tramp w s1)) of Inl e \<Rightarrow> True | Inr v \<Rightarrow> False))"

text \<open>The positional arguments a trampoline builds from the native data.\<close>

definition call_args :: "pyobj list \<Rightarrow> ccallback_t \<Rightarrow> pyobj" where
  "call_args native callback =
     PyTuple (native @ (case extra_arguments (info_p callback) of PyTuple extras \<Rightarrow> extras
                        | _ \<Rightarrow> []))"

section \<open>Example inputs\<close>

text \<open>Arrays: canonical, strided (not contiguous), read-only.\<close>

definition carray_double :: PyArrayObject where
  "carray_double = \<lparr>data = [Double 0], dimensions = [1],
     descr = \<lparr>type_num = NPY_DOUBLE, swapped = False\<rparr>,
     flags = NPY_ARRAY_CARRAY OR NPY_ARRAY_OWNDATA, base = None\<rparr>"

definition strided_double :: PyArrayObject where
  "strided_double = \<lparr>data = [Double 0, Double 1], dimensions = [2],
     descr = \<lparr>type_num = NPY_DOUBLE, swapped = False\<rparr>,
     flags = NPY_ARRAY_ALIGNED OR NPY_ARRAY_WRITEABLE, base = None\<rparr>"

definition readonly_double :: PyArrayObject where
  "readonly_double = \<lparr>data = [Double 2], dimensions = [1],
     descr = \<lparr>type_num = NPY_DOUBLE, swapped = False\<rparr>,
     flags = NPY_ARRAY_C_CONTIGUOUS OR NPY_ARRAY_ALIGNED, base = None\<rparr>"

text \<open>Object stores with one allocation left.\<close>

definition world0 :: world where
  "world0 = \<lparr>objs = [\<lparr>ob_refcnt = 1, ob_val = Ndarray carray_double\<rparr>,
                       \<lparr>ob_refcnt = 1, ob_val = Ndarray strided_double\<rparr>,
                       \<lparr>ob_refcnt = 1, ob_val = PyList [PyLong 1]\<rparr>], mem = 1\<rparr>"

definition world1 :: world where
  "world1 = \<lparr>objs = [\<lparr>ob_refcnt = 1, ob_val = Ndarray carray_double\<rparr>,
                       \<lparr>ob_refcnt = 1, ob_val = Ndarray strided_double\<rparr>,
                       \<lparr>ob_refcnt = 1, ob_val = Ndarray readonly_double\<rparr>], mem = 1\<rparr>"

text \<open>A store holding the host sequences \<^verbatim>\<open>[1, 1.5]\<close> and \<^verbatim>\<open>[1, -2]\<close>.\<close>

definition world_seq :: world where
  "world_seq = \<lparr>objs = [\<lparr>ob_refcnt = 1, ob_val = PyList [PyLong 1, PyFloat (3 / 2)]\<rparr>,
                          \<lparr>ob_refcnt = 1, ob_val = PyList [PyLong 1, PyLong (-2)]\<rparr>], mem = 2\<rparr>"

text \<open>The labelled array \<^verbatim>\<open>[[0,1,1],[0,0,2]]\<close>.\<close>

definition labels23 :: PyArrayObject where
  "labels23 = \<lparr>data = [Intp 0, Intp 1, Intp 1, Intp 0, Intp 0, Intp 2], dimensions = [2, 3],
     descr = \<lparr>type_num = NPY_LONG, swapped = False\<rparr>,
     flags = NPY_ARRAY_CARRAY OR NPY_ARRAY_OWNDATA, base = None\<rparr>"

text \<open>
  An instance of the conversion to a double: a float converts to its contents, an integer
  of magnitude at most \<open>2 ^ 53\<close> to itself. The examples hand it nothing else; here it
  refuses every other object.
\<close>

definition to_double0 :: "pyobj \<Rightarrow> error + real" where
  "to_double0 v =
     (case v of
        PyFloat r \<Rightarrow> Inr r
      | PyLong n \<Rightarrow>
          if \<bar>n\<bar> \<le> 2 ^ 53 then Inr (of_int n)
          else Inl (HostException ''OverflowError'')
      | _ \<Rightarrow> Inl (PyExc_TypeError ''must be real number''))"

text \<open>Callables: one that returns the number 5 and was declared with the extra argument 7 and the named argument k=1; one that returns three coordinates; one that raises a ValueError; one that maps the coordinate 0 to the coordinate 1 and raises a ValueError for every other argument.\<close>

definition callback0 :: ccallback_t where
  "callback0 = \<lparr>py_function = (\<lambda>args kw. Returned (PyFloat 5) [(0, 9)]),
                 info_p = \<lparr>extra_arguments = PyTuple [PyLong 7],
                           extra_keywords = PyDict [(''k'', PyLong 1)]\<rparr>\<rparr>"

definition callback3 :: ccallback_t where
  "callback3 = \<lparr>py_function = (\<lambda>args kw. Returned (PyTuple [PyFloat 1, PyFloat 2, PyFloat 3]) []),
                 info_p = \<lparr>extra_arguments = PyTuple [], extra_keywords = PyDict []\<rparr>\<rparr>"

definition callback_raises :: ccallback_t where
  "callback_raises = \<lparr>py_function = (\<lambda>args kw. Raised (HostException ''ValueError'')),
                       info_p = \<lparr>extra_arguments = PyTuple [], extra_keywords = PyDict []\<rparr>\<rparr>"

definition callback1 :: ccallback_t where
  "callback1 = \<lparr>py_function = (\<lambda>args kw.
                   if args = PyTuple [PyTuple [PyLong 0]] then Returned (PyTuple [PyFloat 1]) []
                   else Raised (HostException ''ValueError'')),
                 info_p = \<lparr>extra_arguments = PyTuple [], extra_keywords = PyDict []\<rparr>\<rparr>"

text \<open>An interpreter state with no error pending and ten allocations left.\<close>

definition pystate0 :: pystate where
  "pystate0 = \<lparr>err = None, budget = 10, calls = []\<rparr>"

text \<open>Arguments of \<^verbatim>\<open>binary_erosion2\<close> around a given handle.\<close>

definition erosion_args0 :: "pyobj \<Rightarrow> erosion2_args" where
  "erosion_args0 handle =
     \<lparr>array = carray_double, strct = carray_double, mask_arg = None, niter = 1,
      origins = [Intp 0], invert = 0, cobj = handle\<rparr>"

text \<open>An engine that records every pointer it is called with.\<close>

definition recording_engine :: "erosion2_args \<Rightarrow> voidptr \<Rightarrow> voidptr list \<Rightarrow> error option \<times> voidptr list" where
  "recording_engine args p st = (None, st @ [p])"

section \<open>Properties\<close>

subsection \<open>The compliance predicate\<close>

lemmas npy_flag_defs =
  NPY_ARRAY_C_CONTIGUOUS_def NPY_ARRAY_OWNDATA_def NPY_ARRAY_ENSURECOPY_def
  NPY_ARRAY_ALIGNED_def NPY_ARRAY_NOTSWAPPED_def NPY_ARRAY_WRITEABLE_def
  NPY_ARRAY_UPDATEIFCOPY_def NPY_ARRAY_CARRAY_def

lemmas array_macro_defs =
  PyArray_ISCARRAY_def PyArray_ISBYTESWAPPED_def PyArray_ISALIGNED_def
  PyArray_ISCONTIGUOUS_def PyArray_ISWRITEABLE_def PyArray_CHKFLAGS_def PyArray_TYPE_def

text \<open>
  Claim C1, as the code has it: \<^verbatim>\<open>satisfies\<close> holds exactly when the type matches (or
  "any" was requested) and either the value is in fully canonical layout, or every
  requested flag among no-byteswap, aligned, contiguous and writable holds on the value and
  force-copy was not requested. So a canonical value of an acceptable type is compliant for
  every requirement set, also one with force-copy, and its flags are not looked at one by
  one; a canonical value of the wrong type is not compliant.
\<close>

theorem satisfies_iff:
  "satisfies eqv a requirements t \<longleftrightarrow>
     (t = NPY_NOTYPE \<or> eqv (PyArray_TYPE a) t) \<and>
     (PyArray_ISCARRAY a \<or>
        (requirements AND NPY_ARRAY_NOTSWAPPED = 0 \<or> \<not> PyArray_ISBYTESWAPPED a) \<and>
        (requirements AND NPY_ARRAY_ALIGNED = 0 \<or> PyArray_ISALIGNED a) \<and>
        (requirements AND NPY_ARRAY_C_CONTIGUOUS = 0 \<or> PyArray_ISCONTIGUOUS a) \<and>
        (requirements AND NPY_ARRAY_WRITEABLE = 0 \<or> PyArray_ISWRITEABLE a) \<and>
        requirements AND NPY_ARRAY_ENSURECOPY = 0)"
  unfolding satisfies_def Let_def by auto

text \<open>
  Witness for C1: a strided array passes when only alignment and byte order are asked for
  and fails when contiguity is; a canonical array passes with force-copy requested.
\<close>

theorem satisfies_iff_witness:
  "satisfies (=) strided_double (NPY_ARRAY_ALIGNED OR NPY_ARRAY_NOTSWAPPED) NPY_NOTYPE \<and>
   \<not> PyArray_ISCARRAY strided_double \<and>
   \<not> satisfies (=) strided_double NPY_ARRAY_C_CONTIGUOUS NPY_NOTYPE \<and>
   satisfies (=) carray_double NPY_ARRAY_ENSURECOPY NPY_DOUBLE"
  using satisfies_iff [of "(=)" strided_double "NPY_ARRAY_ALIGNED OR NPY_ARRAY_NOTSWAPPED" NPY_NOTYPE]
        satisfies_iff [of "(=)" strided_double NPY_ARRAY_C_CONTIGUOUS NPY_NOTYPE]
        satisfies_iff [of "(=)" carray_double NPY_ARRAY_ENSURECOPY NPY_DOUBLE]
  by (simp add: strided_double_def carray_double_def array_macro_defs npy_flag_defs)

text \<open>
  Counterexample to C1 as stated: on a canonical double array with force-copy requested the
  predicate holds although the three-part condition of the claim's first half fails, and
  with the type \<^verbatim>\<open>NPY_LONG\<close> requested the predicate fails although the value is
  canonical.
\<close>

theorem satisfies_claim_counterexample:
  "PyArray_ISCARRAY carray_double \<and>
   satisfies (=) carray_double NPY_ARRAY_ENSURECOPY NPY_NOTYPE \<and>
   \<not> spec_compliant (=) carray_double NPY_ARRAY_ENSURECOPY NPY_NOTYPE \<and>
   \<not> satisfies (=) carray_double 0 NPY_LONG"
  by (simp add: satisfies_def spec_compliant_def carray_double_def array_macro_defs npy_flag_defs)

subsection \<open>Output views\<close>

lemma deref_Py_INCREF [simp]: "deref (Py_INCREF a w) b = deref w b"
  by (simp add: deref_def Py_INCREF_def nth_list_update)

lemma length_objs_Py_INCREF [simp]: "length (objs (Py_INCREF a w)) = length (objs w)"
  by (simp add: Py_INCREF_def)

lemma mem_Py_INCREF [simp]: "mem (Py_INCREF a w) = mem w"
  by (simp add: Py_INCREF_def)

lemma length_objs_modify_array [simp]: "length (objs (modify_array f a w)) = length (objs w)"
  by (simp add: modify_array_def split: option.splits pyobj.splits)

lemma mem_modify_array [simp]: "mem (modify_array f a w) = mem w"
  by (simp add: modify_array_def split: option.splits pyobj.splits)

lemma deref_modify_array:
  "deref (modify_array f a w) b =
     (if b = a then (case deref w a of Some (Ndarray arr) \<Rightarrow> Some (Ndarray (f arr)) | r \<Rightarrow> r)
      else deref w b)"
  by (auto simp: modify_array_def deref_def nth_list_update split: option.splits pyobj.splits if_splits)

lemma CARRAY_writeable: "PyArray_ISCARRAY arr \<Longrightarrow> PyArray_ISWRITEABLE arr"
proof -
  assume "PyArray_ISCARRAY arr"
  then have h: "flags arr AND 0x501 = 0x501"
    by (simp add: array_macro_defs npy_flag_defs)
  have "flags arr AND 0x400 = (flags arr AND 0x501) AND 0x400"
    by (simp add: word_bw_assocs)
  also have "\<dots> = 0x400" by (simp add: h)
  finally show ?thesis by (simp add: array_macro_defs npy_flag_defs)
qed

lemma cleared_not_writeable:
  "\<not> PyArray_ISWRITEABLE (arr\<lparr>flags := flags arr AND NOT NPY_ARRAY_WRITEABLE\<rparr>)"
  by (simp add: PyArray_ISWRITEABLE_def PyArray_CHKFLAGS_def word_bw_assocs NPY_ARRAY_WRITEABLE_def)

text \<open>
  Claim C2 (zero-copy law): for an array in canonical writable layout whose type is
  acceptable, \<^verbatim>\<open>NA_OutputArray\<close> returns the argument itself, whatever the requirements: the
  same object and so the same buffer. Only the reference count of the argument changes; no
  object is created and no allocation is made.
\<close>

theorem NA_OutputArray_zero_copy:
  assumes "deref w a = Some (Ndarray arr)"
    and "PyArray_ISCARRAY arr"
    and "t = NPY_NOTYPE \<or> eqv (PyArray_TYPE arr) t"
  shows "NA_OutputArray eqv a t requires w = (Inr a, Py_INCREF a w) \<and>
         (\<forall>b. deref (Py_INCREF a w) b = deref w b) \<and>
         length (objs (Py_INCREF a w)) = length (objs w) \<and>
         mem (Py_INCREF a w) = mem w"
proof -
  have wr: "PyArray_ISWRITEABLE arr" using assms(2) by (rule CARRAY_writeable)
  have sat: "satisfies eqv arr requires t"
    using assms(2,3) by (simp add: satisfies_def)
  show ?thesis
    using assms(1) wr sat by (simp add: NA_OutputArray_def)
qed

lemma NA_OutputArray_not_writeable:
  assumes "deref w a = Some obj"
    and "\<forall>arr. obj = Ndarray arr \<longrightarrow> \<not> PyArray_ISWRITEABLE arr"
  shows "NA_OutputArray eqv a t requires w =
           (Inl (PyExc_TypeError ''NA_OutputArray: only writeable arrays work for output.''), w)"
  using assms by (cases obj) (simp_all add: NA_OutputArray_def)

lemma NA_OutputArray_shadow_world:
  assumes d: "deref w a = Some (Ndarray arr)"
    and wr: "PyArray_ISWRITEABLE arr"
    and ns: "\<not> satisfies eqv arr requires t"
    and m: "0 < mem w"
  shows "NA_OutputArray eqv a t requires w =
     (Inr (length (objs w)),
      \<lparr>objs = (objs w)[a := (objs w ! a)\<lparr>ob_refcnt := Suc (ob_refcnt (objs w ! a)),
                  ob_val := Ndarray (arr\<lparr>flags := flags arr AND NOT NPY_ARRAY_WRITEABLE\<rparr>)\<rparr>]
               @ [\<lparr>ob_refcnt = 1, ob_val = Ndarray (shadow_of arr a t)\<rparr>],
       mem = mem w - 1\<rparr>)"
proof -
  from d have lt: "a < length (objs w)" and v: "ob_val (objs w ! a) = Ndarray arr"
    by (auto simp: deref_def split: if_splits)
  obtain os k where w: "w = \<lparr>objs = os, mem = k\<rparr>" by (cases w) auto
  show ?thesis
    using d wr ns m lt v unfolding w
    by (auto simp: NA_OutputArray_def PyArray_Empty_def Let_def PyArray_DescrFromType_def
        PyArray_ENABLEFLAGS_def PyArray_SetBaseObject_def PyArray_CLEARFLAGS_def
        modify_array_def deref_def Py_INCREF_def nth_append shadow_of_def
        list_update_append word_bw_assocs)
qed

text \<open>
  The result of \<^verbatim>\<open>PyArray_Empty\<close> is used without a null check: when the allocation of the
  shadow buffer fails, the flags of a null pointer are written.
\<close>

lemma NA_OutputArray_allocation_failure:
  assumes "deref w a = Some (Ndarray arr)" and "PyArray_ISWRITEABLE arr"
    and "\<not> satisfies eqv arr requires t" and "mem w = 0"
  shows "NA_OutputArray eqv a t requires w = (Inl NullDereference, w)"
  using assms by (simp add: NA_OutputArray_def PyArray_Empty_def)

text \<open>
  Claim C3: a source that is not an array, or an array that is not writable, makes
  \<^verbatim>\<open>NA_OutputArray\<close> fail with the "only writeable arrays" TypeError and leaves the
  store as it was. A writable array that does not satisfy the requirements gets, when the
  allocation succeeds, a new object (the shadow buffer) of the same shape whose base is the
  original and which carries the write-back flag \<^verbatim>\<open>NPY_ARRAY_UPDATEIFCOPY\<close>; the original
  loses its writable flag; no other object changes.
\<close>

theorem NA_OutputArray_shadow:
  assumes "deref w a = Some obj"
  shows "((\<forall>arr. obj = Ndarray arr \<longrightarrow> \<not> PyArray_ISWRITEABLE arr) \<longrightarrow>
            NA_OutputArray eqv a t requires w =
              (Inl (PyExc_TypeError ''NA_OutputArray: only writeable arrays work for output.''), w)) \<and>
         (\<forall>arr. obj = Ndarray arr \<and> PyArray_ISWRITEABLE arr \<and>
                \<not> satisfies eqv arr requires t \<and> 0 < mem w \<longrightarrow>
            (\<exists>w'. NA_OutputArray eqv a t requires w = (Inr (length (objs w)), w') \<and>
                  deref w (length (objs w)) = None \<and>
                  deref w' (length (objs w)) = Some (Ndarray (shadow_of arr a t)) \<and>
                  base (shadow_of arr a t) = Some a \<and>
                  PyArray_CHKFLAGS (shadow_of arr a t) NPY_ARRAY_UPDATEIFCOPY \<and>
                  deref w' a =
                    Some (Ndarray (arr\<lparr>flags := flags arr AND NOT NPY_ARRAY_WRITEABLE\<rparr>)) \<and>
                  \<not> PyArray_ISWRITEABLE (arr\<lparr>flags := flags arr AND NOT NPY_ARRAY_WRITEABLE\<rparr>) \<and>
                  (\<forall>b. b \<noteq> a \<and> b \<noteq> length (objs w) \<longrightarrow> deref w' b = deref w b)))"
proof (intro conjI impI allI)
  assume "\<forall>arr. obj = Ndarray arr \<longrightarrow> \<not> PyArray_ISWRITEABLE arr"
  with assms show "NA_OutputArray eqv a t requires w =
      (Inl (PyExc_TypeError ''NA_OutputArray: only writeable arrays work for output.''), w)"
    by (rule NA_OutputArray_not_writeable)
next
  fix arr
  assume h: "obj = Ndarray arr \<and> PyArray_ISWRITEABLE arr \<and>
             \<not> satisfies eqv arr requires t \<and> 0 < mem w"
  with assms have d: "deref w a = Some (Ndarray arr)" by simp
  then have lt: "a < length (objs w)" by (auto simp: deref_def split: if_splits)
  note eq = NA_OutputArray_shadow_world [OF d, of eqv requires t]
  have up: "PyArray_CHKFLAGS (shadow_of arr a t) NPY_ARRAY_UPDATEIFCOPY"
    by (simp add: PyArray_CHKFLAGS_def shadow_of_def npy_flag_defs)
  show "\<exists>w'. NA_OutputArray eqv a t requires w = (Inr (length (objs w)), w') \<and>
      deref w (length (objs w)) = None \<and>
      deref w' (length (objs w)) = Some (Ndarray (shadow_of arr a t)) \<and>
      base (shadow_of arr a t) = Some a \<and>
      PyArray_CHKFLAGS (shadow_of arr a t) NPY_ARRAY_UPDATEIFCOPY \<and>
      deref w' a = Some (Ndarray (arr\<lparr>flags := flags arr AND NOT NPY_ARRAY_WRITEABLE\<rparr>)) \<and>
      \<not> PyArray_ISWRITEABLE (arr\<lparr>flags := flags arr AND NOT NPY_ARRAY_WRITEABLE\<rparr>) \<and>
      (\<forall>b. b \<noteq> a \<and> b \<noteq> length (objs w) \<longrightarrow> deref w' b = deref w b)"
    using h lt up cleared_not_writeable [of arr]
    by (simp add: eq deref_def nth_append shadow_of_def)
qed

text \<open>Witness for C2: a canonical double array, double requested, force-copy requested.\<close>

theorem NA_OutputArray_zero_copy_witness:
  "deref world0 0 = Some (Ndarray carray_double) \<and> PyArray_ISCARRAY carray_double \<and>
   fst (NA_OutputArray (=) 0 NPY_DOUBLE NPY_ARRAY_ENSURECOPY world0) = Inr 0 \<and>
   length (objs (snd (NA_OutputArray (=) 0 NPY_DOUBLE NPY_ARRAY_ENSURECOPY world0))) = 3"
proof -
  have d: "deref world0 0 = Some (Ndarray carray_double)"
    by (simp add: deref_def world0_def)
  have c: "PyArray_ISCARRAY carray_double"
    by (simp add: carray_double_def array_macro_defs npy_flag_defs)
  have t: "NPY_DOUBLE = NPY_NOTYPE \<or> PyArray_TYPE carray_double = NPY_DOUBLE"
    by (simp add: carray_double_def PyArray_TYPE_def)
  show ?thesis
    using NA_OutputArray_zero_copy [where w = world0 and a = 0 and arr = carray_double
          and t = NPY_DOUBLE and eqv = "(=)" and requires = NPY_ARRAY_ENSURECOPY] d c t
    by (simp add: world0_def)
qed

text \<open>
  Witness for C3: a list is refused; a writable strided array asked to be contiguous gets a
  shadow buffer in the next cell and is left aligned but not writable.
\<close>

theorem NA_OutputArray_shadow_witness:
  "NA_OutputArray (=) 2 NPY_NOTYPE NPY_ARRAY_C_CONTIGUOUS world0 =
     (Inl (PyExc_TypeError ''NA_OutputArray: only writeable arrays work for output.''), world0) \<and>
   fst (NA_OutputArray (=) 1 NPY_NOTYPE NPY_ARRAY_C_CONTIGUOUS world0) = Inr 3 \<and>
   deref (snd (NA_OutputArray (=) 1 NPY_NOTYPE NPY_ARRAY_C_CONTIGUOUS world0)) 3 =
     Some (Ndarray (shadow_of strided_double 1 NPY_NOTYPE)) \<and>
   deref (snd (NA_OutputArray (=) 1 NPY_NOTYPE NPY_ARRAY_C_CONTIGUOUS world0)) 1 =
     Some (Ndarray (strided_double\<lparr>flags := NPY_ARRAY_ALIGNED\<rparr>))"
proof -
  have d2: "deref world0 2 = Some (PyList [PyLong 1])"
    by (simp add: deref_def world0_def)
  have d1: "deref world0 1 = Some (Ndarray strided_double)"
    by (simp add: deref_def world0_def)
  have wr: "PyArray_ISWRITEABLE strided_double"
    by (simp add: strided_double_def array_macro_defs npy_flag_defs)
  have ns: "\<not> satisfies (=) strided_double NPY_ARRAY_C_CONTIGUOUS NPY_NOTYPE"
    by (simp add: satisfies_def strided_double_def array_macro_defs npy_flag_defs)
  have m: "0 < mem world0" by (simp add: world0_def)
  have fl: "flags strided_double AND NOT NPY_ARRAY_WRITEABLE = NPY_ARRAY_ALIGNED"
    by (simp add: strided_double_def npy_flag_defs)
  have len: "length (objs world0) = 3" by (simp add: world0_def)
  from NA_OutputArray_shadow [OF d2, of "(=)" NPY_NOTYPE NPY_ARRAY_C_CONTIGUOUS]
  have a: "NA_OutputArray (=) 2 NPY_NOTYPE NPY_ARRAY_C_CONTIGUOUS world0 =
     (Inl (PyExc_TypeError ''NA_OutputArray: only writeable arrays work for output.''), world0)"
    by simp
  from NA_OutputArray_shadow [OF d1, of "(=)" NPY_NOTYPE NPY_ARRAY_C_CONTIGUOUS] wr ns m
  obtain w' where b: "NA_OutputArray (=) 1 NPY_NOTYPE NPY_ARRAY_C_CONTIGUOUS world0 = (Inr 3, w')"
    "deref w' 3 = Some (Ndarray (shadow_of strided_double 1 NPY_NOTYPE))"
    "deref w' 1 = Some (Ndarray (strided_double\<lparr>flags := NPY_ARRAY_ALIGNED\<rparr>))"
    by (auto simp: len fl)
  show ?thesis using a b by simp
qed

subsection \<open>Input/output views\<close>

lemma satisfies_UPDATEIFCOPY:
  "satisfies eqv arr (requires OR NPY_ARRAY_UPDATEIFCOPY) t = satisfies eqv arr requires t"
proof -
  have "\<And>f. NPY_ARRAY_UPDATEIFCOPY AND f = 0 \<Longrightarrow>
          (requires OR NPY_ARRAY_UPDATEIFCOPY) AND f = requires AND f"
    by (simp add: bit.conj_disj_distrib2)
  then show ?thesis
    by (simp add: satisfies_def npy_flag_defs)
qed

lemma UPDATEIFCOPY_requested: "(requires OR NPY_ARRAY_UPDATEIFCOPY) AND NPY_ARRAY_UPDATEIFCOPY \<noteq> 0"
  by (simp add: word_ao_absorbs NPY_ARRAY_UPDATEIFCOPY_def)

lemma io_shadow_writeable: "PyArray_ISWRITEABLE (io_shadow_of arr a t)"
  by (simp add: io_shadow_of_def array_macro_defs npy_flag_defs)

lemma NA_InputArray_compliant:
  assumes "deref w a = Some (Ndarray arr)" and "satisfies eqv arr requires t"
  shows "NA_InputArray eqv a t requires w = (Inr a, Py_INCREF a w)"
  using assms
  by (cases "t = NPY_NOTYPE")
     (simp_all add: NA_InputArray_def PyArray_CheckFromAny_def PyArray_DescrFromType_def Let_def)

lemma NA_InputArray_copy_back:
  assumes d: "deref w a = Some (Ndarray arr)"
    and ns: "\<not> satisfies eqv arr requires t"
    and u: "requires AND NPY_ARRAY_UPDATEIFCOPY \<noteq> 0"
    and m: "0 < mem w"
  shows "NA_InputArray eqv a t requires w =
     (Inr (length (objs w)),
      \<lparr>objs = (objs w)[a := (objs w ! a)\<lparr>ob_refcnt := Suc (ob_refcnt (objs w ! a)),
                  ob_val := Ndarray (arr\<lparr>flags := flags arr AND NOT NPY_ARRAY_WRITEABLE\<rparr>)\<rparr>]
               @ [\<lparr>ob_refcnt = 1, ob_val = Ndarray (io_shadow_of arr a t)\<rparr>],
       mem = mem w - 1\<rparr>)"
proof -
  from d have lt: "a < length (objs w)" and v: "ob_val (objs w ! a) = Ndarray arr"
    by (auto simp: deref_def split: if_splits)
  obtain os k where w: "w = \<lparr>objs = os, mem = k\<rparr>" by (cases w) auto
  show ?thesis
    using d ns u m lt v unfolding w
    by (cases "t = NPY_NOTYPE")
       (simp_all add: NA_InputArray_def PyArray_CheckFromAny_def new_array_def Let_def
        PyArray_DescrFromType_def
        PyArray_ENABLEFLAGS_def PyArray_SetBaseObject_def PyArray_CLEARFLAGS_def
        modify_array_def deref_def Py_INCREF_def nth_append io_shadow_of_def
        list_update_append word_bw_assocs)
qed

text \<open>
  Claim C4, with \<^verbatim>\<open>PyArray_CheckFromAny\<close> modelled from the specification: a compliant
  writable array is returned itself (no object is created, no object changes but for the
  reference count, so no write-back is scheduled); the contents of a non-compliant array
  are copied, when the allocation succeeds, into a new buffer whose base is the source and
  which carries the copy-back flag; a compliant array that is not writable makes
  \<^verbatim>\<open>NA_IoArray\<close> fail with its "must be writable" TypeError.
\<close>

theorem NA_IoArray_cases:
  assumes "deref w a = Some (Ndarray arr)"
  shows "(satisfies eqv arr requires t \<and> PyArray_ISWRITEABLE arr \<longrightarrow>
            NA_IoArray eqv a t requires w = (Inr a, Py_INCREF a w) \<and>
            (\<forall>b. deref (Py_INCREF a w) b = deref w b) \<and>
            length (objs (Py_INCREF a w)) = length (objs w)) \<and>
         (\<not> satisfies eqv arr requires t \<and> 0 < mem w \<longrightarrow>
            (\<exists>w'. NA_IoArray eqv a t requires w = (Inr (length (objs w)), w') \<and>
                  deref w (length (objs w)) = None \<and>
                  deref w' (length (objs w)) = Some (Ndarray (io_shadow_of arr a t)) \<and>
                  data (io_shadow_of arr a t) = data arr \<and>
                  base (io_shadow_of arr a t) = Some a \<and>
                  PyArray_CHKFLAGS (io_shadow_of arr a t) NPY_ARRAY_UPDATEIFCOPY \<and>
                  (\<forall>b. b \<noteq> a \<and> b \<noteq> length (objs w) \<longrightarrow> deref w' b = deref w b))) \<and>
         (satisfies eqv arr requires t \<and> \<not> PyArray_ISWRITEABLE arr \<longrightarrow>
            fst (NA_IoArray eqv a t requires w) =
              Inl (PyExc_TypeError ''NA_IoArray: I/O array must be writable array''))"
proof (intro conjI impI)
  assume h: "satisfies eqv arr requires t \<and> PyArray_ISWRITEABLE arr"
  then have "satisfies eqv arr (requires OR NPY_ARRAY_UPDATEIFCOPY) t"
    by (simp add: satisfies_UPDATEIFCOPY)
  from NA_InputArray_compliant [OF assms this] assms h
  show "NA_IoArray eqv a t requires w = (Inr a, Py_INCREF a w)"
    by (simp add: NA_IoArray_def)
  show "\<forall>b. deref (Py_INCREF a w) b = deref w b" by simp
  show "length (objs (Py_INCREF a w)) = length (objs w)" by simp
next
  assume h: "\<not> satisfies eqv arr requires t \<and> 0 < mem w"
  then have ns: "\<not> satisfies eqv arr (requires OR NPY_ARRAY_UPDATEIFCOPY) t"
    by (simp add: satisfies_UPDATEIFCOPY)
  from h have m: "0 < mem w" by simp
  from assms have lt: "a < length (objs w)" by (auto simp: deref_def split: if_splits)
  note eq = NA_InputArray_copy_back [OF assms ns UPDATEIFCOPY_requested m]
  have up: "PyArray_CHKFLAGS (io_shadow_of arr a t) NPY_ARRAY_UPDATEIFCOPY"
    by (simp add: PyArray_CHKFLAGS_def io_shadow_of_def npy_flag_defs)
  have dat: "data (io_shadow_of arr a t) = data arr" "base (io_shadow_of arr a t) = Some a"
    by (simp_all add: io_shadow_of_def)
  show "\<exists>w'. NA_IoArray eqv a t requires w = (Inr (length (objs w)), w') \<and>
      deref w (length (objs w)) = None \<and>
      deref w' (length (objs w)) = Some (Ndarray (io_shadow_of arr a t)) \<and>
      data (io_shadow_of arr a t) = data arr \<and>
      base (io_shadow_of arr a t) = Some a \<and>
      PyArray_CHKFLAGS (io_shadow_of arr a t) NPY_ARRAY_UPDATEIFCOPY \<and>
      (\<forall>b. b \<noteq> a \<and> b \<noteq> length (objs w) \<longrightarrow> deref w' b = deref w b)"
    using lt up dat io_shadow_writeable [of arr a t]
    by (simp add: NA_IoArray_def eq deref_def nth_append)
next
  assume h: "satisfies eqv arr requires t \<and> \<not> PyArray_ISWRITEABLE arr"
  then have "satisfies eqv arr (requires OR NPY_ARRAY_UPDATEIFCOPY) t"
    by (simp add: satisfies_UPDATEIFCOPY)
  from NA_InputArray_compliant [OF assms this] assms h
  show "fst (NA_IoArray eqv a t requires w) =
      Inl (PyExc_TypeError ''NA_IoArray: I/O array must be writable array'')"
    by (simp add: NA_IoArray_def)
qed

text \<open>
  Witness for C4: a canonical array is returned itself, a strided one gets a buffer holding
  its two elements, a read-only one is refused.
\<close>

theorem NA_IoArray_cases_witness:
  "fst (NA_IoArray (=) 0 NPY_NOTYPE (NPY_ARRAY_ALIGNED OR NPY_ARRAY_NOTSWAPPED) world1) = Inr 0 \<and>
   fst (NA_IoArray (=) 1 NPY_NOTYPE NPY_ARRAY_C_CONTIGUOUS world1) = Inr 3 \<and>
   deref (snd (NA_IoArray (=) 1 NPY_NOTYPE NPY_ARRAY_C_CONTIGUOUS world1)) 3 =
     Some (Ndarray (io_shadow_of strided_double 1 NPY_NOTYPE)) \<and>
   data (io_shadow_of strided_double 1 NPY_NOTYPE) = [Double 0, Double 1] \<and>
   fst (NA_IoArray (=) 2 NPY_NOTYPE (NPY_ARRAY_ALIGNED OR NPY_ARRAY_NOTSWAPPED) world1) =
     Inl (PyExc_TypeError ''NA_IoArray: I/O array must be writable array'')"
proof -
  have d0: "deref world1 0 = Some (Ndarray carray_double)"
    and d1: "deref world1 1 = Some (Ndarray strided_double)"
    and d2: "deref world1 2 = Some (Ndarray readonly_double)"
    by (simp_all add: deref_def world1_def)
  have s0: "satisfies (=) carray_double (NPY_ARRAY_ALIGNED OR NPY_ARRAY_NOTSWAPPED) NPY_NOTYPE"
    and w0: "PyArray_ISWRITEABLE carray_double"
    by (simp_all add: satisfies_def carray_double_def array_macro_defs npy_flag_defs)
  have s1: "\<not> satisfies (=) strided_double NPY_ARRAY_C_CONTIGUOUS NPY_NOTYPE"
    by (simp add: satisfies_def strided_double_def array_macro_defs npy_flag_defs)
  have s2: "satisfies (=) readonly_double (NPY_ARRAY_ALIGNED OR NPY_ARRAY_NOTSWAPPED) NPY_NOTYPE"
    and w2: "\<not> PyArray_ISWRITEABLE readonly_double"
    by (simp_all add: satisfies_def readonly_double_def array_macro_defs npy_flag_defs)
  have m: "0 < mem world1" and len: "length (objs world1) = 3" by (simp_all add: world1_def)
  from NA_IoArray_cases [OF d0, of "(=)" "NPY_ARRAY_ALIGNED OR NPY_ARRAY_NOTSWAPPED" NPY_NOTYPE] s0 w0
  have a: "fst (NA_IoArray (=) 0 NPY_NOTYPE (NPY_ARRAY_ALIGNED OR NPY_ARRAY_NOTSWAPPED) world1) = Inr 0"
    by simp
  from NA_IoArray_cases [OF d1, of "(=)" NPY_ARRAY_C_CONTIGUOUS NPY_NOTYPE] s1 m
  obtain w' where b: "NA_IoArray (=) 1 NPY_NOTYPE NPY_ARRAY_C_CONTIGUOUS world1 = (Inr 3, w')"
    "deref w' 3 = Some (Ndarray (io_shadow_of strided_double 1 NPY_NOTYPE))"
    "data (io_shadow_of strided_double 1 NPY_NOTYPE) = data strided_double"
    by (auto simp: len)
  from NA_IoArray_cases [OF d2, of "(=)" "NPY_ARRAY_ALIGNED OR NPY_ARRAY_NOTSWAPPED" NPY_NOTYPE] s2 w2
  have c: "fst (NA_IoArray (=) 2 NPY_NOTYPE (NPY_ARRAY_ALIGNED OR NPY_ARRAY_NOTSWAPPED) world1) =
     Inl (PyExc_TypeError ''NA_IoArray: I/O array must be writable array'')"
    by simp
  show ?thesis using a b c by (simp add: strided_double_def)
qed

subsection \<open>Integer sequences\<close>

text \<open>
  Claim C5 fails on the code: for the host sequence \<^verbatim>\<open>[1, 1.5]\<close> the conversion fails with
  a TypeError and returns null, and \<^verbatim>\<open>NI_ObjectToLongSequenceAndLength\<close> reads the size
  through that null pointer instead of reporting the error.
\<close>

theorem NI_ObjectToLongSequenceAndLength_null_dereference:
  "fst (NA_InputArray (=) 0 NPY_INTP NPY_ARRAY_CARRAY world_seq) =
     Inl (PyExc_TypeError ''Cannot cast array data to the requested type'') \<and>
   fst (NI_ObjectToLongSequenceAndLength (=) 0 world_seq) = Inl NullDereference"
  by (simp add: NI_ObjectToLongSequenceAndLength_def NA_InputArray_def PyArray_CheckFromAny_def
      PyArray_DescrFromType_def NPY_INTP_def deref_def world_seq_def is_integer_type_def
      is_float_type_def)

lemma NI_ObjectToLongSequenceAndLength_failure:
  assumes "fst (NA_InputArray eqv object NPY_INTP NPY_ARRAY_CARRAY w) = Inl e"
  shows "fst (NI_ObjectToLongSequenceAndLength eqv object w) = Inl NullDereference"
  using assms
  by (cases "NA_InputArray eqv object NPY_INTP NPY_ARRAY_CARRAY w")
     (auto simp: NI_ObjectToLongSequenceAndLength_def)

lemma to_scalars_integers:
  "to_scalars NPY_LONG (map PyLong ns) = Some (map Intp ns)"
  by (induction ns) (simp_all add: is_integer_type_def)

lemma map_nth_map: "map ((!) (map f ns)) [0..<length ns] = map f ns"
  by (metis length_map map_nth)

lemma NA_InputArray_integers:
  assumes d: "deref w object = Some (PyList (map PyLong ns))" and m: "0 < mem w"
  shows "NA_InputArray eqv object NPY_INTP requires w =
     (Inr (length (objs w)),
      w\<lparr>objs := objs w @
           [\<lparr>ob_refcnt = 1,
             ob_val = Ndarray \<lparr>data = map Intp ns, dimensions = [length ns],
                        descr = \<lparr>type_num = NPY_LONG, swapped = False\<rparr>,
                        flags = NPY_ARRAY_CARRAY OR NPY_ARRAY_OWNDATA, base = None\<rparr>\<rparr>],
        mem := mem w - 1\<rparr>)"
  using m
  by (simp add: NA_InputArray_def PyArray_CheckFromAny_def d
      PyArray_DescrFromType_def NPY_INTP_def to_scalars_integers new_array_def)

lemma NI_ObjectToLongSequenceAndLength_copies:
  assumes d: "deref w object = Some (PyList (map PyLong ns))" and m: "2 \<le> mem w"
  shows "fst (NI_ObjectToLongSequenceAndLength eqv object w) = Inr (map Intp ns, length ns)"
proof -
  from m have m0: "0 < mem w" by simp
  show ?thesis
    using m
    by (simp add: NI_ObjectToLongSequenceAndLength_def NA_InputArray_integers [OF d m0]
        deref_def malloc_def PyArray_SIZE_def Let_def map_nth_map)
qed

lemma NI_ObjectToLongSequenceAndLength_no_memory:
  assumes d: "deref w object = Some (PyList (map PyLong ns))" and m: "mem w = 1"
  shows "fst (NI_ObjectToLongSequenceAndLength eqv object w) = Inl PyExc_MemoryError"
proof -
  from m have m0: "0 < mem w" by simp
  show ?thesis
    using m
    by (simp add: NI_ObjectToLongSequenceAndLength_def NA_InputArray_integers [OF d m0]
        deref_def malloc_def PyArray_SIZE_def Let_def)
qed

subsection \<open>find\_objects\<close>

lemma upt_2: "[0..<2] = [0, Suc 0]" by (simp add: upt_rec)

lemma upt_3: "[0..<3] = [0, Suc 0, 2]" by (simp add: upt_rec)

lemma upt_6: "[0..<6] = [0, Suc 0, 2, 3, 4, 5]" by (simp add: upt_rec)

lemma replicate_4: "replicate 4 x = [x, x, x, x]" by (simp add: numeral_eq_Suc)

lemma NI_FindObjects_labels23_two: "NI_FindObjects labels23 2 8 = Inr [0, 1, 1, 3, 1, 2, 2, 3]"
  by (simp add: NI_FindObjects_def labels23_def PyArray_NDIM_def
     label_block_def label_coords_def PyArray_SIZE_def upt_2 upt_6)

lemma NI_FindObjects_labels23_three: "NI_FindObjects labels23 3 12 = Inr [0, 1, 1, 3, 1, 2, 2, 3, -1, -1, -1, -1]"
  by (simp add: NI_FindObjects_def labels23_def PyArray_NDIM_def
     label_block_def label_coords_def PyArray_SIZE_def upt_2 upt_3 upt_6 replicate_4)

lemma PyArray_NDIM_labels23: "PyArray_NDIM labels23 = 2" by (simp add: labels23_def PyArray_NDIM_def)

lemma alloc_Suc [simp]: "alloc (Suc n) = Some n"
  by (simp add: alloc_def)

lemma find_objects_slices_ok:
  assumes "idx + 2 * ndim \<le> length regions" and "\<forall>jj \<in> set jjs. jj < ndim"
    and "3 * length jjs \<le> m"
  shows "find_objects_slices regions idx ndim jjs m =
           (Inr (map (\<lambda>jj. PySlice (PyLong (regions ! (idx + jj)))
                                   (PyLong (regions ! (idx + jj + ndim))) Py_None) jjs),
            m - 3 * length jjs)"
  using assms
proof (induction jjs arbitrary: m)
  case Nil
  then show ?case by simp
next
  case (Cons jj jjs)
  from Cons.prems have r: "idx + jj + ndim < length regions" by simp
  from Cons.prems have "3 \<le> m" by simp
  then obtain k where "m = 3 + k" using le_Suc_ex by blast
  with Cons.prems have k: "m = Suc (Suc (Suc k))" "3 * length jjs \<le> k" by simp_all
  have ih: "find_objects_slices regions idx ndim jjs k =
     (Inr (map (\<lambda>jj. PySlice (PyLong (regions ! (idx + jj)))
                             (PyLong (regions ! (idx + jj + ndim))) Py_None) jjs),
      k - 3 * length jjs)"
    using Cons.IH [of k] Cons.prems k by simp
  show ?case
    using r by (simp add: k alloc_Suc ih)
qed

lemma find_objects_items_ok:
  assumes "\<forall>ii \<in> set iis. (if ndim > 0 then 2 * ndim * ii + 2 * ndim else ii + 1) \<le> length regions"
    and "length iis * (1 + 3 * ndim) \<le> m"
  shows "\<exists>m'. find_objects_items regions ndim iis m =
           (Inr (map (find_objects_item regions ndim) iis), m')"
  using assms
proof (induction iis arbitrary: m)
  case Nil
  then show ?case by simp
next
  case (Cons ii iis)
  let ?idx = "if ndim > 0 then 2 * ndim * ii else ii"
  from Cons.prems have r: "?idx < length regions" "?idx + 2 * ndim \<le> length regions"
    by (auto split: if_splits)
  from Cons.prems have m: "1 + 3 * ndim \<le> m" "length iis * (1 + 3 * ndim) \<le> m - (1 + 3 * ndim)"
    by simp_all
  from Cons.prems have rs: "\<forall>ii \<in> set iis.
      (if ndim > 0 then 2 * ndim * ii + 2 * ndim else ii + 1) \<le> length regions" by simp
  show ?case
  proof (cases "regions ! ?idx \<ge> 0")
    case True
    have a: "alloc m = Some (m - 1)" using m by (simp add: alloc_def)
    have s: "find_objects_slices regions ?idx ndim [0..<ndim] (m - 1) =
        (Inr (map (\<lambda>jj. PySlice (PyLong (regions ! (?idx + jj)))
                                (PyLong (regions ! (?idx + jj + ndim))) Py_None) [0..<ndim]),
         m - 1 - 3 * length [0..<ndim])"
      using r(2) m by (intro find_objects_slices_ok) simp_all
    have "length iis * (1 + 3 * ndim) \<le> m - 1 - 3 * ndim" using m by simp
    from Cons.IH [OF rs this] obtain m' where
      ih: "find_objects_items regions ndim iis (m - 1 - 3 * ndim) =
             (Inr (map (find_objects_item regions ndim) iis), m')" by blast
    show ?thesis
      using r(1) True s a ih
      by (simp add: Let_def find_objects_item_def)
  next
    case False
    have "length iis * (1 + 3 * ndim) \<le> m" using Cons.prems by simp
    from Cons.IH [OF rs this] obtain m' where
      ih: "find_objects_items regions ndim iis m =
             (Inr (map (find_objects_item regions ndim) iis), m')" by blast
    show ?thesis
      using r(1) False ih
      by (simp add: Let_def find_objects_item_def)
  qed
qed

lemma length_concat_blocks:
  assumes "\<forall>i<n. length (f i) = k"
  shows "length (concat (map f [0..<n])) = k * n"
  using assms by (induction n) simp_all

lemma block_index_less:
  fixes i j k n :: nat
  assumes "i < n" "j < k"
  shows "k * i + j < k * n"
proof -
  have "k * i + j < k * i + k" using assms by simp
  also have "\<dots> = k * Suc i" by simp
  also have "\<dots> \<le> k * n" using assms by (intro mult_le_mono2) simp
  finally show ?thesis .
qed

lemma nth_concat_blocks:
  assumes "\<forall>i<n. length (f i) = k" and "i < n" and "j < k"
  shows "concat (map f [0..<n]) ! (k * i + j) = f i ! j"
  using assms
proof (induction n)
  case 0
  then show ?case by simp
next
  case (Suc n)
  have len: "length (concat (map f [0..<n])) = k * n"
    using Suc.prems(1) by (intro length_concat_blocks) simp
  show ?case
  proof (cases "i < n")
    case True
    then have "k * i + j < k * n" using Suc.prems(3) by (rule block_index_less)
    then show ?thesis using Suc True by (simp add: nth_append len)
  next
    case False
    with Suc.prems have "i = n" by simp
    then show ?thesis by (simp add: nth_append len)
  qed
qed

lemma length_label_block:
  "length (label_block input l) =
     (if PyArray_NDIM input = 0 then 1 else 2 * PyArray_NDIM input)"
  by (simp add: label_block_def Let_def)

lemma label_block_present:
  "0 \<le> label_block input l ! 0 \<longleftrightarrow> label_coords input l \<noteq> []"
  by (cases "PyArray_NDIM input") (auto simp: label_block_def Let_def nth_append upt_conv_Cons)

lemma label_block_low:
  assumes "label_coords input l \<noteq> []" and "jj < PyArray_NDIM input"
  shows "label_block input l ! jj = int (lowest (map (\<lambda>c. c ! jj) (label_coords input l)))"
  using assms by (simp add: label_block_def Let_def nth_append)

lemma label_block_high:
  assumes "label_coords input l \<noteq> []" and "jj < PyArray_NDIM input"
  shows "label_block input l ! (jj + PyArray_NDIM input) =
           int (highest (map (\<lambda>c. c ! jj) (label_coords input l))) + 1"
  using assms by (simp add: label_block_def Let_def nth_append)

text \<open>
  The cells of a label that occurs are the least and the greatest coordinate of its voxels
  along each axis: the block is the bounding box of the label.
\<close>

lemma lowest_Min: "xs \<noteq> [] \<Longrightarrow> lowest xs = Min (set xs)"
  by (cases xs) (simp_all add: Min.set_eq_fold [symmetric])

lemma highest_Max: "xs \<noteq> [] \<Longrightarrow> highest xs = Max (set xs)"
  by (cases xs) (simp_all add: Max.set_eq_fold [symmetric])

lemma bounding_box_covers:
  assumes "c \<in> set (label_coords input l)"
  shows "lowest (map (\<lambda>c. c ! jj) (label_coords input l)) \<le> c ! jj \<and>
         c ! jj \<le> highest (map (\<lambda>c. c ! jj) (label_coords input l))"
proof -
  let ?xs = "map (\<lambda>c. c ! jj) (label_coords input l)"
  from assms have ne: "?xs \<noteq> []" and mem: "c ! jj \<in> set ?xs" by auto
  from mem have "Min (set ?xs) \<le> c ! jj" "c ! jj \<le> Max (set ?xs)" by simp_all
  then show ?thesis by (simp only: lowest_Min [OF ne] highest_Max [OF ne])
qed

lemma regions_cells_exact:
  assumes "(if ndim > 0 then 2 * ndim * n else n) * 8 < 2 ^ 64"
  shows "regions_cells ndim n = (if ndim > 0 then 2 * ndim * n else n)"
proof (cases "ndim > 0")
  case True
  with assms have "2 * n * ndim * 8 < 2 ^ 64" by (simp add: mult.commute mult.left_commute)
  then have "(2 * n * ndim * 8) mod 2 ^ 64 = 2 * n * ndim * 8" by simp
  then show ?thesis using True by (simp add: regions_cells_def)
next
  case False
  with assms have "n * 8 < 2 ^ 64" by simp
  then have "(n * 8) mod 2 ^ 64 = n * 8" by simp
  then show ?thesis using False by (simp add: regions_cells_def)
qed

lemma find_objects_item_kernel:
  assumes "i < n"
  shows "find_objects_item (concat (map (\<lambda>i. label_block input (int i + 1)) [0..<n]))
           (PyArray_NDIM input) i =
         (if label_coords input (int i + 1) = [] then Py_None
          else bounding_box input (int i + 1))"
proof -
  let ?ndim = "PyArray_NDIM input"
  let ?k = "if ?ndim = 0 then 1 else 2 * ?ndim"
  let ?f = "\<lambda>i. label_block input (int i + 1)"
  let ?regions = "concat (map ?f [0..<n])"
  have len: "\<forall>i<n. length (?f i) = ?k" by (simp add: length_label_block)
  have nth: "\<And>j. j < ?k \<Longrightarrow> ?regions ! (?k * i + j) = ?f i ! j"
    using len assms by (rule nth_concat_blocks)
  have idx: "(if ?ndim > 0 then 2 * ?ndim * i else i) = ?k * i + 0" by simp
  have first: "?regions ! (if ?ndim > 0 then 2 * ?ndim * i else i) = ?f i ! 0"
    unfolding idx by (rule nth) simp
  show ?thesis
  proof (cases "label_coords input (int i + 1) = []")
    case True
    then have "\<not> 0 \<le> ?f i ! 0" by (simp add: label_block_present)
    then show ?thesis using True first by (simp add: find_objects_item_def Let_def)
  next
    case False
    then have pos: "0 \<le> ?f i ! 0" by (simp add: label_block_present)
    have lo: "\<And>jj. jj < ?ndim \<Longrightarrow> ?regions ! (2 * ?ndim * i + jj) =
        int (lowest (map (\<lambda>c. c ! jj) (label_coords input (int i + 1))))"
    proof -
      fix jj assume jj: "jj < ?ndim"
      then have "?regions ! (?k * i + jj) = ?f i ! jj" by (intro nth) simp
      then show "?regions ! (2 * ?ndim * i + jj) =
        int (lowest (map (\<lambda>c. c ! jj) (label_coords input (int i + 1))))"
        using jj False by (simp add: label_block_low)
    qed
    have hi: "\<And>jj. jj < ?ndim \<Longrightarrow> ?regions ! (2 * ?ndim * i + jj + ?ndim) =
        int (highest (map (\<lambda>c. c ! jj) (label_coords input (int i + 1)))) + 1"
    proof -
      fix jj assume jj: "jj < ?ndim"
      then have "?regions ! (?k * i + (jj + ?ndim)) = ?f i ! (jj + ?ndim)" by (intro nth) simp
      then show "?regions ! (2 * ?ndim * i + jj + ?ndim) =
        int (highest (map (\<lambda>c. c ! jj) (label_coords input (int i + 1)))) + 1"
        using jj False by (simp add: label_block_high add.assoc)
    qed
    show ?thesis
    proof (cases "?ndim = 0")
      case True
      then show ?thesis using False pos first
        by (simp add: find_objects_item_def Let_def bounding_box_def)
    next
      case nz: False
      then show ?thesis using False pos first lo hi
        by (simp add: find_objects_item_def Let_def bounding_box_def)
    qed
  qed
qed

lemma Py_FindObjects_general:
  assumes ov: "(if PyArray_NDIM input > 0 then 2 * PyArray_NDIM input * nat max_label
                else nat max_label) * 8 < 2 ^ 64"
    and bud: "2 + nat max_label * (1 + 3 * PyArray_NDIM input) \<le> m"
  shows "\<exists>items m'. Py_FindObjects NI_FindObjects (Inr (input, max_label)) m =
             (Inr (PyList items), m') \<and>
           length items = nat max_label \<and>
           (\<forall>i<nat max_label. items ! i =
              (if label_coords input (int i + 1) = [] then Py_None
               else bounding_box input (int i + 1)))"
proof -
  let ?ndim = "PyArray_NDIM input"
  let ?n = "nat max_label"
  let ?k = "if ?ndim = 0 then 1 else 2 * ?ndim"
  let ?f = "\<lambda>i. label_block input (int i + 1)"
  let ?regions = "concat (map ?f [0..<?n])"
  have clamp: "(if max_label < 0 then 0 else nat max_label) = ?n" by simp
  have cells: "regions_cells ?ndim ?n = (if ?ndim > 0 then 2 * ?ndim * ?n else ?n)"
    using ov by (rule regions_cells_exact)
  have kern: "\<And>c. c = (if ?ndim > 0 then 2 * ?ndim * ?n else ?n) \<Longrightarrow>
      NI_FindObjects input ?n c = Inr ?regions"
    by (simp add: NI_FindObjects_def Let_def)
  have len: "length ?regions = ?k * ?n"
    by (rule length_concat_blocks) (simp add: length_label_block)
  have inr: "\<forall>ii \<in> set [0..<?n].
      (if ?ndim > 0 then 2 * ?ndim * ii + 2 * ?ndim else ii + 1) \<le> length ?regions"
  proof
    fix ii assume "ii \<in> set [0..<?n]"
    then have "Suc ii \<le> ?n" by simp
    then have "?k * Suc ii \<le> ?k * ?n" by (rule mult_le_mono2)
    then show "(if ?ndim > 0 then 2 * ?ndim * ii + 2 * ?ndim else ii + 1) \<le> length ?regions"
      by (simp add: len split: if_splits)
  qed
  from bud have "2 \<le> m" by simp
  then obtain m0 where "m = 2 + m0" using le_Suc_ex by blast
  with bud have m0: "m = Suc (Suc m0)" "?n * (1 + 3 * ?ndim) \<le> m0" by simp_all
  have b1: "length [0..<?n] * (1 + 3 * ?ndim) \<le> m0" using m0 by simp
  have b2: "length [0..<?n] * (1 + 3 * ?ndim) \<le> Suc m0" using m0 by simp
  from find_objects_items_ok [OF inr b1] obtain m1 where
    it1: "find_objects_items ?regions ?ndim [0..<?n] m0 =
            (Inr (map (find_objects_item ?regions ?ndim) [0..<?n]), m1)" by blast
  let ?items = "map (find_objects_item ?regions ?ndim) [0..<?n]"
  have items: "\<forall>i<?n. ?items ! i =
      (if label_coords input (int i + 1) = [] then Py_None else bounding_box input (int i + 1))"
    by (simp add: find_objects_item_kernel)
  have run: "\<exists>m'. Py_FindObjects NI_FindObjects (Inr (input, max_label)) m = (Inr (PyList ?items), m')"
  proof (cases "?n > 0")
    case True
    then show ?thesis
      using it1 by (simp add: Py_FindObjects_def clamp m0 cells kern Let_def del: upt.simps)
  next
    case False
    then have z: "?n = 0" by simp
    show ?thesis
      by (simp add: Py_FindObjects_def Let_def z m0 NI_FindObjects_def)
  qed
  then obtain m' where "Py_FindObjects NI_FindObjects (Inr (input, max_label)) m = (Inr (PyList ?items), m')"
    by blast
  moreover have "length ?items = ?n" by simp
  ultimately show ?thesis using items by blast
qed

text \<open>
  Claim C6, with the kernel \<^verbatim>\<open>NI_FindObjects\<close> modelled from the specification: on the
  2x3 labelled array \<^verbatim>\<open>[[0,1,1],[0,0,2]]\<close> with \<^verbatim>\<open>max_label = 2\<close> the result is the list of
  the box of label 1 (rows 0 to 1, columns 1 to 3) and the box of label 2 (rows 1 to 2,
  columns 2 to 3); with \<^verbatim>\<open>max_label = 3\<close> a third entry \<^verbatim>\<open>None\<close> follows. In general,
  when the allocations succeed and the size of \<^verbatim>\<open>regions\<close> does not overflow, the result
  is a list of exactly \<^verbatim>\<open>max_label\<close> entries, entry \<open>i\<close> being \<^verbatim>\<open>None\<close> when label \<open>i + 1\<close> has
  no voxel and the bounding box of label \<open>i + 1\<close> otherwise.
\<close>

theorem Py_FindObjects_boxes:
  "fst (Py_FindObjects NI_FindObjects (Inr (labels23, 2)) 16) =
     Inr (PyList [PyTuple [PySlice (PyLong 0) (PyLong 1) Py_None,
                           PySlice (PyLong 1) (PyLong 3) Py_None],
                  PyTuple [PySlice (PyLong 1) (PyLong 2) Py_None,
                           PySlice (PyLong 2) (PyLong 3) Py_None]]) \<and>
   fst (Py_FindObjects NI_FindObjects (Inr (labels23, 3)) 16) =
     Inr (PyList [PyTuple [PySlice (PyLong 0) (PyLong 1) Py_None,
                           PySlice (PyLong 1) (PyLong 3) Py_None],
                  PyTuple [PySlice (PyLong 1) (PyLong 2) Py_None,
                           PySlice (PyLong 2) (PyLong 3) Py_None],
                  Py_None]) \<and>
   (\<forall>input max_label m.
      (if PyArray_NDIM input > 0 then 2 * PyArray_NDIM input * nat max_label
       else nat max_label) * 8 < 2 ^ 64 \<and>
      2 + nat max_label * (1 + 3 * PyArray_NDIM input) \<le> m \<longrightarrow>
      (\<exists>items m'. Py_FindObjects NI_FindObjects (Inr (input, max_label)) m =
                     (Inr (PyList items), m') \<and>
                   length items = nat max_label \<and>
                   (\<forall>i<nat max_label. items ! i =
                      (if label_coords input (int i + 1) = [] then Py_None
                       else bounding_box input (int i + 1)))))"
proof (intro conjI allI impI)
  show "fst (Py_FindObjects NI_FindObjects (Inr (labels23, 2)) 16) =
     Inr (PyList [PyTuple [PySlice (PyLong 0) (PyLong 1) Py_None,
                           PySlice (PyLong 1) (PyLong 3) Py_None],
                  PyTuple [PySlice (PyLong 1) (PyLong 2) Py_None,
                           PySlice (PyLong 2) (PyLong 3) Py_None]])"
    by (simp add: Py_FindObjects_def PyArray_NDIM_labels23 regions_cells_def alloc_def NI_FindObjects_labels23_two upt_2)
  show "fst (Py_FindObjects NI_FindObjects (Inr (labels23, 3)) 16) =
     Inr (PyList [PyTuple [PySlice (PyLong 0) (PyLong 1) Py_None,
                           PySlice (PyLong 1) (PyLong 3) Py_None],
                  PyTuple [PySlice (PyLong 1) (PyLong 2) Py_None,
                           PySlice (PyLong 2) (PyLong 3) Py_None],
                  Py_None])"
    by (simp add: Py_FindObjects_def PyArray_NDIM_labels23 regions_cells_def alloc_def NI_FindObjects_labels23_three upt_2 upt_3)
next
  fix input max_label m
  assume "(if PyArray_NDIM input > 0 then 2 * PyArray_NDIM input * nat max_label
           else nat max_label) * 8 < 2 ^ 64 \<and>
          2 + nat max_label * (1 + 3 * PyArray_NDIM input) \<le> m"
  then show "\<exists>items m'. Py_FindObjects NI_FindObjects (Inr (input, max_label)) m =
                     (Inr (PyList items), m') \<and>
                   length items = nat max_label \<and>
                   (\<forall>i<nat max_label. items ! i =
                      (if label_coords input (int i + 1) = [] then Py_None
                       else bounding_box input (int i + 1)))"
    by (intro Py_FindObjects_general) simp_all
qed

text \<open>
  Witness for C6: the general part at the 2x3 array with \<^verbatim>\<open>max_label = 3\<close> and 23
  allocations: three entries, the third \<^verbatim>\<open>None\<close>, the second the box of label 2.
\<close>

theorem Py_FindObjects_boxes_witness:
  "\<exists>items m'. Py_FindObjects NI_FindObjects (Inr (labels23, 3)) 23 = (Inr (PyList items), m') \<and>
     length items = 3 \<and> items ! 2 = Py_None \<and>
     items ! 1 = PyTuple [PySlice (PyLong 1) (PyLong 2) Py_None,
                          PySlice (PyLong 2) (PyLong 3) Py_None]"
proof -
  have ov: "(if PyArray_NDIM labels23 > 0 then 2 * PyArray_NDIM labels23 * nat 3
             else nat 3) * 8 < (2::nat) ^ 64"
    by (simp add: PyArray_NDIM_labels23)
  have bud: "2 + nat 3 * (1 + 3 * PyArray_NDIM labels23) \<le> (23::nat)"
    by (simp add: PyArray_NDIM_labels23)
  have c3: "label_coords labels23 3 = []"
    by (simp add: label_coords_def labels23_def PyArray_SIZE_def upt_6)
  have c2: "label_coords labels23 2 = [[1, 2]]"
    by (simp add: label_coords_def labels23_def PyArray_SIZE_def upt_6)
  have b2: "bounding_box labels23 2 =
      PyTuple [PySlice (PyLong 1) (PyLong 2) Py_None, PySlice (PyLong 2) (PyLong 3) Py_None]"
    by (simp add: bounding_box_def c2 PyArray_NDIM_labels23 upt_2)
  from Py_FindObjects_boxes ov bud
  obtain items m' where r:
    "Py_FindObjects NI_FindObjects (Inr (labels23, 3)) 23 = (Inr (PyList items), m')"
    "length items = nat 3"
    "\<forall>i<nat 3. items ! i =
       (if label_coords labels23 (int i + 1) = [] then Py_None
        else bounding_box labels23 (int i + 1))"
    by blast
  from r(3) [rule_format, of 2] have i2: "items ! 2 = Py_None" using c3 by simp
  from r(3) [rule_format, of 1] have i1: "items ! 1 = bounding_box labels23 2" using c2 by simp
  show ?thesis using r(1,2) i1 i2 b2 by simp
qed

text \<open>
  Claim C10: a \<^verbatim>\<open>max_label\<close> that is zero or negative is clamped to zero: no buffer is
  allocated, the kernel is called with no labels, and when the kernel reports success and
  the empty list can be allocated the result is the empty list.
\<close>

theorem Py_FindObjects_nonpositive:
  assumes "max_label \<le> 0" and "engine input 0 0 = Inr regions" and "0 < m"
  shows "Py_FindObjects engine (Inr (input, max_label)) m = (Inr (PyList []), m - 1)"
  using assms by (simp add: Py_FindObjects_def alloc_def Let_def)

text \<open>Witness for C10: \<^verbatim>\<open>max_label = -3\<close> on the 2x3 array.\<close>

theorem Py_FindObjects_nonpositive_witness:
  "NI_FindObjects labels23 0 0 = Inr [] \<and>
   Py_FindObjects NI_FindObjects (Inr (labels23, - 3)) 1 = (Inr (PyList []), 0)"
proof -
  have k: "NI_FindObjects labels23 0 0 = Inr []"
    by (simp add: NI_FindObjects_def Let_def)
  from Py_FindObjects_nonpositive [of "- 3" NI_FindObjects labels23 "[]" 1] k
  show ?thesis by simp
qed

subsection \<open>Trampolines: the arguments of the call\<close>

lemma calls_PyErr_Set [simp]: "calls (PyErr_Set e s) = calls s"
  by (simp add: PyErr_Set_def)

lemma err_PyErr_Set [simp]: "err (PyErr_Set e s) = Some e"
  by (simp add: PyErr_Set_def)

lemma budget_PyErr_Set [simp]: "budget (PyErr_Set e s) = budget s"
  by (simp add: PyErr_Set_def)

lemma py_alloc_zero: "budget s = 0 \<Longrightarrow> py_alloc v s = (None, PyErr_Set PyExc_MemoryError s)"
  by (simp add: py_alloc_def)

lemma py_alloc_pos: "0 < budget s \<Longrightarrow> py_alloc v s = (Some v, s\<lparr>budget := budget s - 1\<rparr>)"
  by (simp add: py_alloc_def)

lemma NA_NewAllFromBuffer_double_zero:
  "budget s = 0 \<Longrightarrow> NA_NewAllFromBuffer [n] NPY_DOUBLE s = (None, PyErr_Set PyExc_MemoryError s)"
  by (simp add: NA_NewAllFromBuffer_def PyArray_DescrFromType_def py_alloc_def)

lemma NA_NewAllFromBuffer_double_pos:
  "0 < budget s \<Longrightarrow> NA_NewAllFromBuffer [n] NPY_DOUBLE s =
     (Some (Ndarray (double_array (replicate n Uninitialized))), s\<lparr>budget := budget s - 1\<rparr>)"
  by (simp add: NA_NewAllFromBuffer_def PyArray_DescrFromType_def py_alloc_def double_array_def)

lemma NA_NewArray_double_pos_Some:
  assumes "0 < budget s"
  shows "NA_NewArray (Some b) NPY_DOUBLE [n] s =
     (Some (Ndarray (double_array (map (\<lambda>i. Double (b ! i)) [0..<n]))), s\<lparr>budget := budget s - 1\<rparr>)"
proof -
  have "NA_NewAll [n] NPY_DOUBLE (Some b) s =
     (Some (Ndarray ((double_array (replicate n Uninitialized))
          \<lparr>data := map (\<lambda>i. Double (b ! i)) [0..<PyArray_SIZE (double_array (replicate n Uninitialized))]\<rparr>)),
      s\<lparr>budget := budget s - 1\<rparr>)"
    unfolding NA_NewAll_def NA_NewAllFromBuffer_double_pos [OF assms] by simp
  moreover have "PyArray_SIZE (double_array (replicate n Uninitialized)) = n"
    by (simp add: PyArray_SIZE_def double_array_def)
  moreover have "(double_array (replicate n Uninitialized))\<lparr>data := map (\<lambda>i. Double (b ! i)) [0..<n]\<rparr>
      = double_array (map (\<lambda>i. Double (b ! i)) [0..<n])"
    by (simp add: double_array_def)
  ultimately show ?thesis by (simp add: NA_NewArray_def)
qed

lemma NA_NewArray_double_pos_None:
  assumes "0 < budget s"
  shows "NA_NewArray None NPY_DOUBLE [n] s =
     (Some (Ndarray (double_array (replicate n (Double 0)))), s\<lparr>budget := budget s - 1\<rparr>)"
proof -
  have "NA_NewAll [n] NPY_DOUBLE None s =
     (Some (Ndarray ((double_array (replicate n Uninitialized))
          \<lparr>data := replicate (PyArray_SIZE (double_array (replicate n Uninitialized))) (Double 0)\<rparr>)),
      s\<lparr>budget := budget s - 1\<rparr>)"
    unfolding NA_NewAll_def NA_NewAllFromBuffer_double_pos [OF assms] by simp
  moreover have "PyArray_SIZE (double_array (replicate n Uninitialized)) = n"
    by (simp add: PyArray_SIZE_def double_array_def)
  moreover have "(double_array (replicate n Uninitialized))\<lparr>data := replicate n (Double 0)\<rparr>
      = double_array (replicate n (Double 0))"
    by (simp add: double_array_def)
  ultimately show ?thesis by (simp add: NA_NewArray_def)
qed

lemma NA_NewArray_double_zero:
  assumes "budget s = 0"
  shows "NA_NewArray buffer NPY_DOUBLE [n] s = (None, PyErr_Set PyExc_MemoryError s)"
  unfolding NA_NewArray_def NA_NewAll_def NA_NewAllFromBuffer_double_zero [OF assms] by simp

lemma map_Double_nth: "map (\<lambda>i. Double (b ! i)) [0..<length b] = map Double b"
proof -
  have "map (\<lambda>i. Double (b ! i)) [0..<length b] = map Double (map ((!) b) [0..<length b])"
    by (simp add: comp_def)
  then show ?thesis by (simp only: map_nth)
qed

lemma NA_NewArray_window:
  "NA_NewArray (Some b) NPY_DOUBLE [length b] s =
     (if budget s = 0 then (None, PyErr_Set PyExc_MemoryError s)
      else (Some (Ndarray (double_array (map Double b))), s\<lparr>budget := budget s - 1\<rparr>))"
  by (simp add: NA_NewArray_double_zero NA_NewArray_double_pos_Some map_Double_nth)

lemma NA_NewArray_zeros:
  "NA_NewArray None NPY_DOUBLE [n] s =
     (if budget s = 0 then (None, PyErr_Set PyExc_MemoryError s)
      else (Some (Ndarray (double_array (replicate n (Double 0)))), s\<lparr>budget := budget s - 1\<rparr>))"
  by (simp add: NA_NewArray_double_zero NA_NewArray_double_pos_None)

lemma PySequence_Concat_tuple:
  "PySequence_Concat (PyTuple xs) (PyTuple ys) s =
      (if budget s = 0 then (None, PyErr_Set PyExc_MemoryError s)
       else (Some (PyTuple (xs @ ys)), s\<lparr>budget := budget s - 1\<rparr>))"
  by (simp add: PySequence_Concat_def py_alloc_def)

lemma PySequence_Concat_not_tuple:
  "\<not> is_tuple b \<Longrightarrow> PySequence_Concat (PyTuple xs) b s =
      (None, PyErr_Set (PyExc_TypeError ''can only concatenate tuple to tuple'') s)"
  by (cases b) (simp_all add: PySequence_Concat_def)

lemma Py_BuildValue_eq:
  "Py_BuildValue items s =
      (if budget s = 0 then (None, PyErr_Set PyExc_MemoryError s)
       else (Some (PyTuple items), s\<lparr>budget := budget s - 1\<rparr>))"
  by (simp add: Py_BuildValue_def py_alloc_def)

lemma Py_Filter1DFunc_not_tuple:
  assumes "\<not> is_tuple (extra_arguments (info_p callback))"
  shows "not_called s (snd (Py_Filter1DFunc iline oline callback s))"
  using assms
  by (simp add: Py_Filter1DFunc_def NA_NewArray_window NA_NewArray_zeros Py_BuildValue_eq
      PySequence_Concat_not_tuple Let_def not_called_def)

lemma Py_Filter1DFunc_calls:
  "not_called s (snd (Py_Filter1DFunc iline oline callback s)) \<or>
   called_once_with [Ndarray (double_array (map Double iline)),
                     Ndarray (double_array (replicate (length oline) (Double 0)))]
     callback s (snd (Py_Filter1DFunc iline oline callback s))"
proof (cases "extra_arguments (info_p callback)")
  case (PyTuple extras)
  then show ?thesis
    by (simp add: Py_Filter1DFunc_def NA_NewArray_window NA_NewArray_zeros Py_BuildValue_eq
        PySequence_Concat_tuple PyObject_Call_def Let_def not_called_def called_once_with_def
        split: call_result.splits)
qed (simp_all add: Py_Filter1DFunc_not_tuple)

lemma Py_Filter1DFunc_called:
  assumes "4 \<le> budget s" and "is_tuple (extra_arguments (info_p callback))"
  shows "called_once_with [Ndarray (double_array (map Double iline)),
                     Ndarray (double_array (replicate (length oline) (Double 0)))]
     callback s (snd (Py_Filter1DFunc iline oline callback s))"
proof (cases "extra_arguments (info_p callback)")
  case (PyTuple extras)
  then show ?thesis
    using assms(1)
    by (simp add: Py_Filter1DFunc_def NA_NewArray_window NA_NewArray_zeros Py_BuildValue_eq
        PySequence_Concat_tuple PyObject_Call_def Let_def called_once_with_def
        split: call_result.splits)
qed (use assms(2) in simp_all)

lemma Py_FilterFunc_calls:
  "not_called s (snd (Py_FilterFunc to_double buffer output callback s)) \<or>
   called_once_with [Ndarray (double_array (map Double buffer))]
     callback s (snd (Py_FilterFunc to_double buffer output callback s))"
proof (cases "extra_arguments (info_p callback)")
  case (PyTuple extras)
  then show ?thesis
    by (simp add: Py_FilterFunc_def NA_NewArray_window Py_BuildValue_eq
        PySequence_Concat_tuple PyObject_Call_def PyFloat_AsDouble_def Let_def not_called_def
        called_once_with_def
        split: call_result.splits pyobj.splits sum.splits)
qed (simp_all add: Py_FilterFunc_def NA_NewArray_window Py_BuildValue_eq
        PySequence_Concat_not_tuple Let_def not_called_def)

lemma Py_FilterFunc_called:
  assumes "3 \<le> budget s" and "is_tuple (extra_arguments (info_p callback))"
  shows "called_once_with [Ndarray (double_array (map Double buffer))]
     callback s (snd (Py_FilterFunc to_double buffer output callback s))"
proof (cases "extra_arguments (info_p callback)")
  case (PyTuple extras)
  then show ?thesis
    using assms(1)
    by (simp add: Py_FilterFunc_def NA_NewArray_window Py_BuildValue_eq
        PySequence_Concat_tuple PyObject_Call_def PyFloat_AsDouble_def Let_def
        called_once_with_def
        split: call_result.splits pyobj.splits sum.splits)
qed (use assms(2) in simp_all)

lemma py_alloc_Suc: "budget s = Suc k \<Longrightarrow> py_alloc v s = (Some v, s\<lparr>budget := k\<rparr>)"
  by (simp add: py_alloc_def)

lemma Py_Map_fill_calls: "Py_Map_fill cs s = (r, s') \<Longrightarrow> calls s' = calls s"
proof (induction cs arbitrary: s r s')
  case Nil
  then show ?case by simp
next
  case (Cons c cs)
  show ?case
  proof (cases "budget s")
    case 0
    with Cons.prems show ?thesis by (auto simp: py_alloc_def PyErr_Occurred_def)
  next
    case (Suc k)
    show ?thesis
    proof (cases "err s")
      case None
      obtain r2 s2 where f: "Py_Map_fill cs (s\<lparr>budget := k\<rparr>) = (r2, s2)"
        by (cases "Py_Map_fill cs (s\<lparr>budget := k\<rparr>)")
      from Cons.IH [OF f] have "calls s2 = calls s" by simp
      with Cons.prems f None show ?thesis
        by (auto simp: py_alloc_Suc [OF Suc] PyErr_Occurred_def split: option.splits)
    next
      case (Some e)
      with Cons.prems show ?thesis
        by (auto simp: py_alloc_Suc [OF Suc] PyErr_Occurred_def)
    qed
  qed
qed

lemma Py_Map_fill_Some: "Py_Map_fill cs s = (Some items, s') \<Longrightarrow> items = map PyLong cs"
proof (induction cs arbitrary: s items s')
  case Nil
  then show ?case by simp
next
  case (Cons c cs)
  show ?case
  proof (cases "budget s")
    case 0
    with Cons.prems show ?thesis by (auto simp: py_alloc_def PyErr_Occurred_def)
  next
    case (Suc k)
    obtain r2 s2 where f: "Py_Map_fill cs (s\<lparr>budget := k\<rparr>) = (r2, s2)"
      by (cases "Py_Map_fill cs (s\<lparr>budget := k\<rparr>)")
    show ?thesis
    proof (cases r2)
      case None
      with Cons.prems f show ?thesis
        by (auto simp: py_alloc_Suc [OF Suc] PyErr_Occurred_def split: if_splits)
    next
      case (Some vs)
      with f Cons.IH have "vs = map PyLong cs" by blast
      with Cons.prems f Some show ?thesis
        by (auto simp: py_alloc_Suc [OF Suc] PyErr_Occurred_def split: if_splits)
    qed
  qed
qed

lemma Py_Map_fill_ok:
  "err s = None \<Longrightarrow> budget s = length cs + k \<Longrightarrow>
     Py_Map_fill cs s = (Some (map PyLong cs), s\<lparr>budget := k\<rparr>)"
proof (induction cs arbitrary: s)
  case Nil
  then show ?case by simp
next
  case (Cons c cs)
  from Cons.prems have b: "budget s = Suc (length cs + k)" by simp
  have "Py_Map_fill cs (s\<lparr>budget := length cs + k\<rparr>) =
      (Some (map PyLong cs), s\<lparr>budget := length cs + k\<rparr>\<lparr>budget := k\<rparr>)"
    using Cons.prems by (intro Cons.IH) simp_all
  then show ?case using Cons.prems by (simp add: py_alloc_Suc [OF b] PyErr_Occurred_def)
qed

lemma Py_Map_read_calls: "Py_Map_read to_double rets iis icoor s = (r, s') \<Longrightarrow> calls s' = calls s"
proof (induction iis arbitrary: icoor s r s')
  case Nil
  then show ?case by simp
next
  case (Cons ii iis)
  obtain item s1 where g: "PyTuple_GetItem rets ii s = (item, s1)"
    by (cases "PyTuple_GetItem rets ii s")
  then have c1: "calls s1 = calls s"
    by (auto simp: PyTuple_GetItem_def split: pyobj.splits if_splits)
  obtain v s2 where d: "PyFloat_AsDouble to_double item s1 = (v, s2)"
    by (cases "PyFloat_AsDouble to_double item s1")
  then have c2: "calls s2 = calls s1"
    by (auto simp: PyFloat_AsDouble_def PyErr_Set_def split: option.splits sum.splits)
  show ?case
  proof (cases "PyErr_Occurred s2")
    case True
    with Cons.prems g d c1 c2 show ?thesis by auto
  next
    case False
    with Cons.prems g d have "Py_Map_read to_double rets iis (icoor[ii := v]) s2 = (r, s')" by simp
    from Cons.IH [OF this] c1 c2 show ?thesis by simp
  qed
qed

lemma Py_Map_calls:
  "not_called s (snd (Py_Map to_double ocoor icoor callback s)) \<or>
   called_once_with [PyTuple (map PyLong ocoor)] callback s (snd (Py_Map to_double ocoor icoor callback s))"
proof (cases "budget s")
  case 0
  then show ?thesis by (simp add: Py_Map_def py_alloc_def not_called_def)
next
  case (Suc k)
  note a = py_alloc_Suc [OF Suc]
  obtain r s2 where f: "Py_Map_fill ocoor (s\<lparr>budget := k\<rparr>) = (r, s2)"
    by (cases "Py_Map_fill ocoor (s\<lparr>budget := k\<rparr>)")
  have c2: "calls s2 = calls s" using Py_Map_fill_calls [OF f] by simp
  show ?thesis
  proof (cases r)
    case None
    then show ?thesis using c2 by (simp add: Py_Map_def a f not_called_def)
  next
    case (Some items)
    with f have items: "items = map PyLong ocoor" by (auto dest: Py_Map_fill_Some)
    show ?thesis
    proof (cases "is_tuple (extra_arguments (info_p callback))")
      case False
      then show ?thesis
        using c2 Some
        by (simp add: Py_Map_def a f Py_BuildValue_eq PySequence_Concat_not_tuple
            Let_def not_called_def)
    next
      case True
      then obtain extras where ex: "extra_arguments (info_p callback) = PyTuple extras"
        by (cases "extra_arguments (info_p callback)") simp_all
      show ?thesis
      proof (cases "budget s2 < 2")
        case True
        then show ?thesis
          using c2 Some ex
          by (auto simp: Py_Map_def a f Py_BuildValue_eq PySequence_Concat_tuple
              Let_def not_called_def)
      next
        case False
        let ?args = "PyTuple ([PyTuple items] @ extras)"
        let ?kw = "extra_keywords (info_p callback)"
        let ?s4 = "s2\<lparr>budget := budget s2 - 1 - 1\<rparr>"
        obtain r5 s5 where c: "PyObject_Call (py_function callback) ?args ?kw ?s4 = (r5, s5)"
          by (cases "PyObject_Call (py_function callback) ?args ?kw ?s4")
        then have c5: "calls s5 = calls s @ [(?args, ?kw)]"
          using c2 by (auto simp: PyObject_Call_def Let_def split: call_result.splits)
        have run: "snd (Py_Map to_double ocoor icoor callback s) =
            (case r5 of None \<Rightarrow> s5
             | Some (rets, writes) \<Rightarrow> snd (Py_Map_read to_double rets [0..<length icoor] icoor s5))"
          using False Some ex c
          by (simp add: Py_Map_def a f Py_BuildValue_eq PySequence_Concat_tuple Let_def
              split: option.splits prod.splits)
        have "calls (snd (Py_Map to_double ocoor icoor callback s)) = calls s5"
        proof (cases r5)
          case None
          then show ?thesis by (simp add: run)
        next
          case (Some p)
          obtain rets writes where p: "p = (rets, writes)" by (cases p)
          obtain ic s6 where rd: "Py_Map_read to_double rets [0..<length icoor] icoor s5 = (ic, s6)"
            by (cases "Py_Map_read to_double rets [0..<length icoor] icoor s5")
          from Py_Map_read_calls [OF rd] show ?thesis by (simp add: run Some p rd)
        qed
        then show ?thesis using c5 ex items by (simp add: called_once_with_def)
      qed
    qed
  qed
qed

lemma Py_Map_called:
  assumes "3 + length ocoor \<le> budget s" and "err s = None"
    and "is_tuple (extra_arguments (info_p callback))"
  shows "called_once_with [PyTuple (map PyLong ocoor)] callback s
           (snd (Py_Map to_double ocoor icoor callback s))"
proof -
  from assms(1) obtain k where "budget s = 3 + length ocoor + k"
    using le_Suc_ex by blast
  then have k: "budget s = Suc (Suc (Suc (length ocoor + k)))" by simp
  note a = py_alloc_Suc [OF k]
  have "Py_Map_fill ocoor (s\<lparr>budget := Suc (Suc (length ocoor + k))\<rparr>) =
      (Some (map PyLong ocoor),
       s\<lparr>budget := Suc (Suc (length ocoor + k))\<rparr>\<lparr>budget := Suc (Suc k)\<rparr>)"
    using assms(2) by (intro Py_Map_fill_ok) simp_all
  then have f: "Py_Map_fill ocoor (s\<lparr>budget := Suc (Suc (length ocoor + k))\<rparr>) =
      (Some (map PyLong ocoor), s\<lparr>budget := Suc (Suc k)\<rparr>)"
    by simp
  from Py_Map_calls [of s to_double ocoor icoor callback]
  show ?thesis
  proof
    assume "not_called s (snd (Py_Map to_double ocoor icoor callback s))"
    moreover from assms(3) obtain extras where
      ex: "extra_arguments (info_p callback) = PyTuple extras"
      by (cases "extra_arguments (info_p callback)") simp_all
    have "calls (snd (Py_Map to_double ocoor icoor callback s)) \<noteq> calls s"
    proof -
      let ?args = "PyTuple ([PyTuple (map PyLong ocoor)] @ extras)"
      let ?kw = "extra_keywords (info_p callback)"
      let ?s4 = "s\<lparr>budget := k\<rparr>"
      obtain r5 s5 where c: "PyObject_Call (py_function callback) ?args ?kw ?s4 = (r5, s5)"
        by (cases "PyObject_Call (py_function callback) ?args ?kw ?s4")
      then have c5: "calls s5 = calls s @ [(?args, ?kw)]"
        by (auto simp: PyObject_Call_def Let_def split: call_result.splits)
      have run: "snd (Py_Map to_double ocoor icoor callback s) =
          (case r5 of None \<Rightarrow> s5
           | Some (rets, writes) \<Rightarrow> snd (Py_Map_read to_double rets [0..<length icoor] icoor s5))"
        using ex c
        by (simp add: Py_Map_def a f Py_BuildValue_eq PySequence_Concat_tuple Let_def
            split: option.splits prod.splits)
      have "calls (snd (Py_Map to_double ocoor icoor callback s)) = calls s5"
      proof (cases r5)
        case None
        then show ?thesis by (simp add: run)
      next
        case (Some p)
        obtain rets writes where p: "p = (rets, writes)" by (cases p)
        obtain ic s6 where rd: "Py_Map_read to_double rets [0..<length icoor] icoor s5 = (ic, s6)"
          by (cases "Py_Map_read to_double rets [0..<length icoor] icoor s5")
        from Py_Map_read_calls [OF rd] show ?thesis by (simp add: run Some p rd)
      qed
      then show ?thesis using c5 by simp
    qed
    ultimately show ?thesis by (simp add: not_called_def)
  qed
qed

text \<open>
  Claim C7: whenever a trampoline calls the host callable, it calls it once, with a
  positional tuple that is the native data (the input and output line arrays for
  \<^verbatim>\<open>Py_Filter1DFunc\<close>, the window array for \<^verbatim>\<open>Py_FilterFunc\<close>, the coordinate tuple for
  \<^verbatim>\<open>Py_Map\<close>) followed by the declared extra positional arguments in order, and with the
  declared extra named arguments; and it does call it when the temporaries can be allocated,
  the extra arguments are a tuple and (for \<^verbatim>\<open>Py_Map\<close>) no error is pending.
\<close>

theorem trampolines_pass_declared_arguments:
  "(not_called s (snd (Py_Filter1DFunc iline oline callback s)) \<or>
    called_once_with [Ndarray (double_array (map Double iline)),
                      Ndarray (double_array (replicate (length oline) (Double 0)))]
      callback s (snd (Py_Filter1DFunc iline oline callback s))) \<and>
   (4 \<le> budget s \<and> is_tuple (extra_arguments (info_p callback)) \<longrightarrow>
    called_once_with [Ndarray (double_array (map Double iline)),
                      Ndarray (double_array (replicate (length oline) (Double 0)))]
      callback s (snd (Py_Filter1DFunc iline oline callback s))) \<and>
   (not_called s (snd (Py_FilterFunc to_double buffer output callback s)) \<or>
    called_once_with [Ndarray (double_array (map Double buffer))]
      callback s (snd (Py_FilterFunc to_double buffer output callback s))) \<and>
   (3 \<le> budget s \<and> is_tuple (extra_arguments (info_p callback)) \<longrightarrow>
    called_once_with [Ndarray (double_array (map Double buffer))]
      callback s (snd (Py_FilterFunc to_double buffer output callback s))) \<and>
   (not_called s (snd (Py_Map to_double ocoor icoor callback s)) \<or>
    called_once_with [PyTuple (map PyLong ocoor)]
      callback s (snd (Py_Map to_double ocoor icoor callback s))) \<and>
   (3 + length ocoor \<le> budget s \<and> err s = None \<and>
    is_tuple (extra_arguments (info_p callback)) \<longrightarrow>
    called_once_with [PyTuple (map PyLong ocoor)]
      callback s (snd (Py_Map to_double ocoor icoor callback s)))"
  using Py_Filter1DFunc_calls [of s iline oline callback]
        Py_Filter1DFunc_called [of s callback iline oline]
        Py_FilterFunc_calls [of s to_double buffer "output" callback]
        Py_FilterFunc_called [of s callback buffer to_double "output"]
        Py_Map_calls [of s to_double ocoor icoor callback]
        Py_Map_called [of ocoor s callback to_double icoor]
  by blast

text \<open>
  Witness for C7: a callable declared with the extra argument \<^verbatim>\<open>7\<close> and the named argument
  \<^verbatim>\<open>k=1\<close> receives them after the native data in each of the three trampolines.
\<close>

theorem trampolines_pass_declared_arguments_witness:
  "calls (snd (Py_Filter1DFunc [1, 2] [0] callback0 pystate0)) =
     [(PyTuple [Ndarray (double_array [Double 1, Double 2]), Ndarray (double_array [Double 0]),
                PyLong 7], PyDict [(''k'', PyLong 1)])] \<and>
   calls (snd (Py_FilterFunc to_double0 [1, 2] 0 callback0 pystate0)) =
     [(PyTuple [Ndarray (double_array [Double 1, Double 2]), PyLong 7],
       PyDict [(''k'', PyLong 1)])] \<and>
   calls (snd (Py_Map to_double0 [3, 4] [0, 0] callback0 pystate0)) =
     [(PyTuple [PyTuple [PyLong 3, PyLong 4], PyLong 7], PyDict [(''k'', PyLong 1)])]"
  using trampolines_pass_declared_arguments
          [of pystate0 "[1, 2]" "[0]" callback0 to_double0 "[1, 2]" 0 "[3, 4]" "[0, 0]"]
  by (simp add: called_once_with_def callback0_def pystate0_def)

subsection \<open>Trampolines: the status\<close>

lemma PyFloat_AsDouble_number:
  "converts to_double v \<Longrightarrow> snd (PyFloat_AsDouble to_double (Some v) s) = s"
  by (simp add: PyFloat_AsDouble_def converts_def split: sum.splits)

lemma PyFloat_AsDouble_not_number:
  "\<not> converts to_double v \<Longrightarrow> PyErr_Occurred (snd (PyFloat_AsDouble to_double (Some v) s))"
  by (simp add: PyFloat_AsDouble_def converts_def PyErr_Occurred_def PyErr_Set_def
      split: sum.splits)

lemma PyFloat_AsDouble_null:
  "PyErr_Occurred (snd (PyFloat_AsDouble to_double None s))"
  by (simp add: PyFloat_AsDouble_def PyErr_Occurred_def)

lemma read_step_ok:
  assumes "coordinate_ok to_double rets ii"
  shows "\<exists>v. PyTuple_GetItem rets ii s = (Some v, s) \<and> snd (PyFloat_AsDouble to_double (Some v) s) = s"
proof -
  from assms obtain rs where rs: "rets = PyTuple rs" "ii < length rs" "converts to_double (rs ! ii)"
    by (cases rets) (simp_all add: coordinate_ok_def)
  then show ?thesis
    by (simp add: PyTuple_GetItem_def PyFloat_AsDouble_number)
qed

lemma read_step_bad:
  assumes "\<not> coordinate_ok to_double rets ii" and "PyTuple_GetItem rets ii s = (item, s1)"
  shows "PyErr_Occurred (snd (PyFloat_AsDouble to_double item s1))"
proof (cases item)
  case None
  then show ?thesis by (simp add: PyFloat_AsDouble_null)
next
  case (Some v)
  with assms(2) obtain rs where "rets = PyTuple rs" "ii < length rs" "v = rs ! ii"
    by (cases rets) (auto simp: PyTuple_GetItem_def split: if_splits)
  with assms(1) have "\<not> converts to_double v" by (simp add: coordinate_ok_def)
  then show ?thesis using Some by (simp add: PyFloat_AsDouble_not_number)
qed

lemma Py_Map_read_err:
  assumes "\<not> PyErr_Occurred s"
  shows "PyErr_Occurred (snd (Py_Map_read to_double rets iis icoor s)) \<longleftrightarrow>
           \<not> list_all (coordinate_ok to_double rets) iis"
  using assms
proof (induction iis arbitrary: icoor s)
  case Nil
  then show ?case by simp
next
  case (Cons ii iis)
  show ?case
  proof (cases "coordinate_ok to_double rets ii")
    case True
    from read_step_ok [OF True, of s] obtain v where
      g: "PyTuple_GetItem rets ii s = (Some v, s)" and d: "snd (PyFloat_AsDouble to_double (Some v) s) = s"
      by blast
    obtain x where dx: "PyFloat_AsDouble to_double (Some v) s = (x, s)"
      using d by (cases "PyFloat_AsDouble to_double (Some v) s") simp
    show ?thesis
      using True Cons.prems Cons.IH [OF Cons.prems, of "icoor[ii := x]"]
      by (simp add: g dx)
  next
    case False
    obtain item s1 where g: "PyTuple_GetItem rets ii s = (item, s1)"
      by (cases "PyTuple_GetItem rets ii s")
    obtain x s2 where dx: "PyFloat_AsDouble to_double item s1 = (x, s2)"
      by (cases "PyFloat_AsDouble to_double item s1")
    from read_step_bad [OF False g] dx have "PyErr_Occurred s2" by simp
    then show ?thesis using False by (simp add: g dx)
  qed
qed

lemma exit_status_iff: "exit_status s = 0 \<longleftrightarrow> PyErr_Occurred s"
  by (simp add: exit_status_def)

lemma Py_Filter1DFunc_status:
  "fst (fst (Py_Filter1DFunc iline oline callback s)) =
     exit_status (snd (Py_Filter1DFunc iline oline callback s))"
  by (simp add: Py_Filter1DFunc_def Let_def split: prod.splits option.splits)

lemma Py_FilterFunc_status:
  "fst (fst (Py_FilterFunc to_double buffer output callback s)) =
     exit_status (snd (Py_FilterFunc to_double buffer output callback s))"
  by (simp add: Py_FilterFunc_def Let_def split: prod.splits option.splits)

lemma Py_Map_status:
  "fst (fst (Py_Map to_double ocoor icoor callback s)) = exit_status (snd (Py_Map to_double ocoor icoor callback s))"
  by (simp add: Py_Map_def Let_def split: prod.splits option.splits)

lemma Py_Filter1DFunc_error_iff:
  assumes "err s = None" and "4 \<le> budget s"
    and "is_tuple (extra_arguments (info_p callback))"
  shows "PyErr_Occurred (snd (Py_Filter1DFunc iline oline callback s)) \<longleftrightarrow>
     \<not> returned (py_function callback
          (call_args [Ndarray (double_array (map Double iline)),
                      Ndarray (double_array (replicate (length oline) (Double 0)))] callback)
          (extra_keywords (info_p callback)))"
proof -
  from assms(3) obtain extras where ex: "extra_arguments (info_p callback) = PyTuple extras"
    by (cases "extra_arguments (info_p callback)") simp_all
  show ?thesis
    using assms(1,2)
    by (simp add: Py_Filter1DFunc_def NA_NewArray_window NA_NewArray_zeros Py_BuildValue_eq
        ex PySequence_Concat_tuple PyObject_Call_def Let_def call_args_def PyErr_Occurred_def
        split: call_result.splits)
qed

lemma Py_FilterFunc_error_iff:
  assumes "err s = None" and "3 \<le> budget s"
    and "is_tuple (extra_arguments (info_p callback))"
  shows "PyErr_Occurred (snd (Py_FilterFunc to_double buffer output callback s)) \<longleftrightarrow>
     \<not> returned_number to_double (py_function callback
          (call_args [Ndarray (double_array (map Double buffer))] callback)
          (extra_keywords (info_p callback)))"
proof -
  from assms(3) obtain extras where ex: "extra_arguments (info_p callback) = PyTuple extras"
    by (cases "extra_arguments (info_p callback)") simp_all
  let ?r = "py_function callback
          (call_args [Ndarray (double_array (map Double buffer))] callback)
          (extra_keywords (info_p callback))"
  show ?thesis
  proof (cases ?r)
    case (Raised e)
    then show ?thesis
      using assms(1,2)
      by (simp add: Py_FilterFunc_def NA_NewArray_window Py_BuildValue_eq
          ex PySequence_Concat_tuple PyObject_Call_def Let_def call_args_def PyErr_Occurred_def)
  next
    case (Returned rv writes)
    let ?s4 = "s\<lparr>budget := budget s - Suc 0 - Suc 0 - Suc 0,
                  calls := calls s @ [(PyTuple (Ndarray (double_array (map Double buffer)) # extras),
                                       extra_keywords (info_p callback))]\<rparr>"
    have run: "snd (Py_FilterFunc to_double buffer output callback s) = snd (PyFloat_AsDouble to_double (Some rv) ?s4)"
      using assms(1,2) Returned
      by (simp add: Py_FilterFunc_def NA_NewArray_window Py_BuildValue_eq
          ex PySequence_Concat_tuple PyObject_Call_def Let_def call_args_def
          split: prod.splits)
    have ne: "\<not> PyErr_Occurred ?s4" using assms(1) by (simp add: PyErr_Occurred_def)
    show ?thesis
    proof (cases "converts to_double rv")
      case True
      then show ?thesis using Returned ne by (simp add: run PyFloat_AsDouble_number)
    next
      case False
      then show ?thesis using Returned by (simp add: run PyFloat_AsDouble_not_number)
    qed
  qed
qed

lemma Py_Map_error_iff:
  assumes "err s = None" and "3 + length ocoor \<le> budget s"
    and "is_tuple (extra_arguments (info_p callback))"
  shows "PyErr_Occurred (snd (Py_Map to_double ocoor icoor callback s)) \<longleftrightarrow>
     \<not> returned_coordinates to_double (length icoor) (py_function callback
          (call_args [PyTuple (map PyLong ocoor)] callback)
          (extra_keywords (info_p callback)))"
proof -
  from assms(3) obtain extras where ex: "extra_arguments (info_p callback) = PyTuple extras"
    by (cases "extra_arguments (info_p callback)") simp_all
  from assms(2) obtain k where "budget s = 3 + length ocoor + k"
    using le_Suc_ex by blast
  then have k: "budget s = Suc (Suc (Suc (length ocoor + k)))" by simp
  note a = py_alloc_Suc [OF k]
  have "Py_Map_fill ocoor (s\<lparr>budget := Suc (Suc (length ocoor + k))\<rparr>) =
      (Some (map PyLong ocoor),
       s\<lparr>budget := Suc (Suc (length ocoor + k))\<rparr>\<lparr>budget := Suc (Suc k)\<rparr>)"
    using assms(1) by (intro Py_Map_fill_ok) simp_all
  then have f: "Py_Map_fill ocoor (s\<lparr>budget := Suc (Suc (length ocoor + k))\<rparr>) =
      (Some (map PyLong ocoor), s\<lparr>budget := Suc (Suc k)\<rparr>)"
    by simp
  let ?kw = "extra_keywords (info_p callback)"
  let ?args = "PyTuple (PyTuple (map PyLong ocoor) # extras)"
  let ?r = "py_function callback (call_args [PyTuple (map PyLong ocoor)] callback) ?kw"
  have ca: "call_args [PyTuple (map PyLong ocoor)] callback = ?args"
    by (simp add: call_args_def ex)
  show ?thesis
  proof (cases ?r)
    case (Raised e)
    then show ?thesis
      using ca
      by (simp add: Py_Map_def a f Py_BuildValue_eq ex PySequence_Concat_tuple PyObject_Call_def
          Let_def PyErr_Occurred_def)
  next
    case (Returned rets writes)
    let ?s5 = "s\<lparr>budget := k, calls := calls s @ [(?args, ?kw)]\<rparr>"
    have run: "snd (Py_Map to_double ocoor icoor callback s) =
        snd (Py_Map_read to_double rets [0..<length icoor] icoor ?s5)"
      using Returned ca
      by (simp add: Py_Map_def a f Py_BuildValue_eq ex PySequence_Concat_tuple PyObject_Call_def
          Let_def split: prod.splits)
    have ne: "\<not> PyErr_Occurred ?s5" using assms(1) by (simp add: PyErr_Occurred_def)
    show ?thesis
      using Returned by (simp add: run Py_Map_read_err [OF ne])
  qed
qed

lemma Py_Filter1DFunc_raised:
  assumes "4 \<le> budget s" and "extra_arguments (info_p callback) = PyTuple extras"
    and "\<And>a k. py_function callback a k = Raised e"
  shows "err (snd (Py_Filter1DFunc iline oline callback s)) = Some e"
  using assms
  by (simp add: Py_Filter1DFunc_def NA_NewArray_window NA_NewArray_zeros Py_BuildValue_eq
      PySequence_Concat_tuple PyObject_Call_def PyErr_Set_def Let_def)

lemma Py_FilterFunc_raised:
  assumes "3 \<le> budget s" and "extra_arguments (info_p callback) = PyTuple extras"
    and "\<And>a k. py_function callback a k = Raised e"
  shows "err (snd (Py_FilterFunc to_double buffer output callback s)) = Some e"
  using assms
  by (simp add: Py_FilterFunc_def NA_NewArray_window Py_BuildValue_eq
      PySequence_Concat_tuple PyObject_Call_def PyErr_Set_def Let_def)

lemma kernel_run_first_failure:
  assumes "kernel_run tramp ws s = ((st, rs), s1)" and "st \<noteq> 0"
    and "fst (fst (tramp w s1)) = 0"
  shows "kernel_run tramp (ws @ w # ws') s = ((0, rs), snd (tramp w s1))"
  using assms
proof (induction ws arbitrary: s st rs)
  case Nil
  obtain r s2 where t: "tramp w s1 = ((0, r), s2)"
    using Nil.prems(3) by (cases "tramp w s1") auto
  from Nil.prems(1) have "s1 = s" "rs = []" by simp_all
  with t show ?case by simp
next
  case (Cons x xs)
  obtain status r s' where t: "tramp x s = ((status, r), s')"
    by (cases "tramp x s") auto
  show ?case
  proof (cases "status = 0")
    case True
    with Cons.prems(1,2) t show ?thesis by simp
  next
    case False
    obtain st' rs' s2 where k: "kernel_run tramp xs s' = ((st', rs'), s2)"
      by (cases "kernel_run tramp xs s'") auto
    with Cons.prems(1) t False have e: "st' = st" "rs = r # rs'" "s2 = s1" by simp_all
    from k e have "kernel_run tramp xs s' = ((st, rs'), s1)" by simp
    from Cons.IH [OF this Cons.prems(2,3)]
    have "kernel_run tramp (xs @ w # ws') s' = ((0, rs'), snd (tramp w s1))" .
    with t False e show ?thesis by simp
  qed
qed

lemma fails_first_at_aborts_at:
  assumes "\<And>w s. fst (fst (tramp w s)) = exit_status (snd (tramp w s))"
    and "fails_first_at tramp ws w s"
  shows "aborts_at tramp ws w ws' s"
proof -
  obtain st rs s1 where k: "kernel_run tramp ws s = ((st, rs), s1)"
    by (cases "kernel_run tramp ws s") auto
  with assms(2) have f: "st \<noteq> 0" "fst (fst (tramp w s1)) = 0"
    by (simp_all add: fails_first_at_def)
  from f(2) assms(1) [of w s1] have "PyErr_Occurred (snd (tramp w s1))"
    by (simp add: exit_status_def split: if_splits)
  then have "case adapter_exit (snd (tramp w s1)) of Inl e \<Rightarrow> True | Inr v \<Rightarrow> False"
    by (auto simp: adapter_exit_def PyErr_Occurred_def)
  with kernel_run_first_failure [OF k f, of ws'] k show ?thesis
    by (simp add: aborts_at_def)
qed

text \<open>
  Claim C8, as the code has it. Every trampoline returns the failure status 0 exactly when
  a host-level error is set at its exit. With no error pending on entry, enough
  allocations and a tuple of extra arguments, that is: for \<^verbatim>\<open>Py_Filter1DFunc\<close> exactly
  when the callable raised; for \<^verbatim>\<open>Py_FilterFunc\<close> exactly when it raised or returned a
  value whose conversion to a double raises; for \<^verbatim>\<open>Py_Map\<close> exactly when it raised or,
  for some index below the input rank, its result is not a tuple, has no element at that
  index, or has an element there whose conversion to a double raises. A coordinate result
  with more elements than the input rank is not an error: the elements beyond the input
  rank are not looked at. On a failure status no result values are treated as valid, the
  kernel aborts on the first failed invocation and the failure propagates to the caller:
  when the invocations for the work items \<open>ws\<close> succeeded and the one for \<open>w\<close> returns the
  failure status, the run of each trampoline's kernel over \<open>ws\<close>, \<open>w\<close> and any further items
  ends with status 0 in the state that invocation left (nothing is invoked for the further
  items), its results are those of \<open>ws\<close> alone, and the adapter's exit returns the error.
\<close>

theorem trampoline_failure_status:
  "fst (fst (Py_Filter1DFunc iline oline callback s)) =
     exit_status (snd (Py_Filter1DFunc iline oline callback s)) \<and>
   fst (fst (Py_FilterFunc to_double buffer out callback s)) =
     exit_status (snd (Py_FilterFunc to_double buffer out callback s)) \<and>
   fst (fst (Py_Map to_double ocoor icoor callback s)) =
     exit_status (snd (Py_Map to_double ocoor icoor callback s)) \<and>
   (err s = None \<and> 4 \<le> budget s \<and> is_tuple (extra_arguments (info_p callback)) \<longrightarrow>
      (fst (fst (Py_Filter1DFunc iline oline callback s)) = 0 \<longleftrightarrow>
       \<not> returned (py_function callback
            (call_args [Ndarray (double_array (map Double iline)),
                        Ndarray (double_array (replicate (length oline) (Double 0)))] callback)
            (extra_keywords (info_p callback))))) \<and>
   (err s = None \<and> 3 \<le> budget s \<and> is_tuple (extra_arguments (info_p callback)) \<longrightarrow>
      (fst (fst (Py_FilterFunc to_double buffer out callback s)) = 0 \<longleftrightarrow>
       \<not> returned_number to_double (py_function callback
            (call_args [Ndarray (double_array (map Double buffer))] callback)
            (extra_keywords (info_p callback))))) \<and>
   (err s = None \<and> 3 + length ocoor \<le> budget s \<and>
    is_tuple (extra_arguments (info_p callback)) \<longrightarrow>
      (fst (fst (Py_Map to_double ocoor icoor callback s)) = 0 \<longleftrightarrow>
       \<not> returned_coordinates to_double (length icoor) (py_function callback
            (call_args [PyTuple (map PyLong ocoor)] callback)
            (extra_keywords (info_p callback))))) \<and>
   (fails_first_at (\<lambda>(iline, oline). Py_Filter1DFunc iline oline callback) lines line s \<longrightarrow>
      aborts_at (\<lambda>(iline, oline). Py_Filter1DFunc iline oline callback) lines line lines' s) \<and>
   (fails_first_at (\<lambda>buffer. Py_FilterFunc to_double buffer out callback) windows window s \<longrightarrow>
      aborts_at (\<lambda>buffer. Py_FilterFunc to_double buffer out callback)
        windows window windows' s) \<and>
   (fails_first_at (\<lambda>ocoor. Py_Map to_double ocoor icoor callback) points point s \<longrightarrow>
      aborts_at (\<lambda>ocoor. Py_Map to_double ocoor icoor callback) points point points' s)"
proof (intro conjI impI)
  show "fst (fst (Py_Filter1DFunc iline oline callback s)) =
     exit_status (snd (Py_Filter1DFunc iline oline callback s))"
    by (rule Py_Filter1DFunc_status)
  show "fst (fst (Py_FilterFunc to_double buffer out callback s)) =
     exit_status (snd (Py_FilterFunc to_double buffer out callback s))"
    by (rule Py_FilterFunc_status)
  show "fst (fst (Py_Map to_double ocoor icoor callback s)) =
     exit_status (snd (Py_Map to_double ocoor icoor callback s))"
    by (rule Py_Map_status)
next
  assume "err s = None \<and> 4 \<le> budget s \<and> is_tuple (extra_arguments (info_p callback))"
  then show "fst (fst (Py_Filter1DFunc iline oline callback s)) = 0 \<longleftrightarrow>
       \<not> returned (py_function callback
            (call_args [Ndarray (double_array (map Double iline)),
                        Ndarray (double_array (replicate (length oline) (Double 0)))] callback)
            (extra_keywords (info_p callback)))"
    by (simp add: Py_Filter1DFunc_status exit_status_iff Py_Filter1DFunc_error_iff)
next
  assume "err s = None \<and> 3 \<le> budget s \<and> is_tuple (extra_arguments (info_p callback))"
  then show "fst (fst (Py_FilterFunc to_double buffer out callback s)) = 0 \<longleftrightarrow>
       \<not> returned_number to_double (py_function callback
            (call_args [Ndarray (double_array (map Double buffer))] callback)
            (extra_keywords (info_p callback)))"
    by (simp add: Py_FilterFunc_status exit_status_iff Py_FilterFunc_error_iff)
next
  assume "err s = None \<and> 3 + length ocoor \<le> budget s \<and>
    is_tuple (extra_arguments (info_p callback))"
  then show "fst (fst (Py_Map to_double ocoor icoor callback s)) = 0 \<longleftrightarrow>
       \<not> returned_coordinates to_double (length icoor) (py_function callback
            (call_args [PyTuple (map PyLong ocoor)] callback)
            (extra_keywords (info_p callback)))"
    by (simp add: Py_Map_status exit_status_iff Py_Map_error_iff)
next
  assume "fails_first_at (\<lambda>(iline, oline). Py_Filter1DFunc iline oline callback) lines line s"
  then show "aborts_at (\<lambda>(iline, oline). Py_Filter1DFunc iline oline callback)
      lines line lines' s"
    by (intro fails_first_at_aborts_at) (simp_all add: Py_Filter1DFunc_status split: prod.splits)
next
  assume "fails_first_at (\<lambda>buffer. Py_FilterFunc to_double buffer out callback) windows window s"
  then show "aborts_at (\<lambda>buffer. Py_FilterFunc to_double buffer out callback)
      windows window windows' s"
    by (intro fails_first_at_aborts_at) (simp_all add: Py_FilterFunc_status)
next
  assume "fails_first_at (\<lambda>ocoor. Py_Map to_double ocoor icoor callback) points point s"
  then show "aborts_at (\<lambda>ocoor. Py_Map to_double ocoor icoor callback) points point points' s"
    by (intro fails_first_at_aborts_at) (simp_all add: Py_Map_status)
qed

text \<open>
  Witness for C8. The callable that returns the number 5: the two window trampolines
  succeed; \<^verbatim>\<open>Py_Map\<close> with input rank 2 fails, a number being no coordinate tuple. The
  callable that raises: the kernel runs of the window trampolines over two work items end
  at the first with no result, and the error reaches the caller. The callable that maps
  the coordinate 0 to 1 and raises for every other: the run over the coordinates 0, 1 and
  2 keeps the result for 0, ends at 1 after two calls, and returns the ValueError.
\<close>

theorem trampoline_failure_status_witness:
  "fst (fst (Py_Filter1DFunc [1, 2] [0] callback0 pystate0)) = 1 \<and>
   fst (fst (Py_FilterFunc to_double0 [1, 2] 0 callback0 pystate0)) = 1 \<and>
   fst (fst (Py_Map to_double0 [3, 4] [0, 0] callback0 pystate0)) = 0 \<and>
   fst (kernel_run (\<lambda>(iline, oline). Py_Filter1DFunc iline oline callback_raises)
          [([1, 2], [0]), ([3, 4], [0])] pystate0) = (0, []) \<and>
   adapter_exit (snd (kernel_run (\<lambda>(iline, oline). Py_Filter1DFunc iline oline callback_raises)
          [([1, 2], [0]), ([3, 4], [0])] pystate0)) = Inl (HostException ''ValueError'') \<and>
   fst (kernel_run (\<lambda>buffer. Py_FilterFunc to_double0 buffer 0 callback_raises)
          [[1, 2], [3, 4]] pystate0) = (0, []) \<and>
   adapter_exit (snd (kernel_run (\<lambda>buffer. Py_FilterFunc to_double0 buffer 0 callback_raises)
          [[1, 2], [3, 4]] pystate0)) = Inl (HostException ''ValueError'') \<and>
   fst (kernel_run (\<lambda>ocoor. Py_Map to_double0 ocoor [0] callback1) [[0], [1], [2]] pystate0) =
     (0, [[1]]) \<and>
   calls (snd (kernel_run (\<lambda>ocoor. Py_Map to_double0 ocoor [0] callback1)
          [[0], [1], [2]] pystate0)) =
     [(PyTuple [PyTuple [PyLong 0]], PyDict []), (PyTuple [PyTuple [PyLong 1]], PyDict [])] \<and>
   adapter_exit (snd (kernel_run (\<lambda>ocoor. Py_Map to_double0 ocoor [0] callback1)
          [[0], [1], [2]] pystate0)) = Inl (HostException ''ValueError'')"
proof -
  have h: "err pystate0 = None" "4 \<le> budget pystate0" "3 \<le> budget pystate0"
     "3 + length [3, 4 :: int] \<le> budget pystate0"
     "is_tuple (extra_arguments (info_p callback0))"
     "is_tuple (extra_arguments (info_p callback_raises))"
    by (simp_all add: pystate0_def callback0_def callback_raises_def)
  note t = trampoline_failure_status [where s = pystate0 and callback = callback0
      and to_double = to_double0
      and iline = "[1, 2]" and oline = "[0]" and buffer = "[1, 2]" and out = 0
      and ocoor = "[3, 4]" and icoor = "[0, 0]"
      and lines = "[]" and line = "([1, 2], [0])" and lines' = "[([3, 4], [0])]"
      and windows = "[]" and window = "[1, 2]" and windows' = "[[3, 4]]"
      and points = "[[0]]" and point = "[1]" and points' = "[[2]]"]
  note t1 = t [THEN conjunct1]
  note t2 = t [THEN conjunct2, THEN conjunct1]
  note t4 = t [THEN conjunct2, THEN conjunct2, THEN conjunct2, THEN conjunct1]
  note t5 = t [THEN conjunct2, THEN conjunct2, THEN conjunct2, THEN conjunct2, THEN conjunct1]
  note t6 = t [THEN conjunct2, THEN conjunct2, THEN conjunct2, THEN conjunct2, THEN conjunct2,
      THEN conjunct1]
  have r1: "returned (py_function callback0 a k)" for a k by (simp add: callback0_def)
  have r2: "returned_number to_double0 (py_function callback0 a k)" for a k
    by (simp add: callback0_def converts_def to_double0_def)
  have r3: "\<not> returned_coordinates to_double0 (length [0, 0 :: real]) (py_function callback0 a k)"
    for a k
    by (simp add: callback0_def coordinate_ok_def upt_2)
  from t4 h r1 have "fst (fst (Py_Filter1DFunc [1, 2] [0] callback0 pystate0)) \<noteq> 0"
    by simp
  with t1 have a: "fst (fst (Py_Filter1DFunc [1, 2] [0] callback0 pystate0)) = 1"
    by (simp add: exit_status_def split: if_splits)
  from t5 h r2 have "fst (fst (Py_FilterFunc to_double0 [1, 2] 0 callback0 pystate0)) \<noteq> 0"
    by simp
  with t2 have b: "fst (fst (Py_FilterFunc to_double0 [1, 2] 0 callback0 pystate0)) = 1"
    by (simp add: exit_status_def split: if_splits)
  from t6 h r3 have c: "fst (fst (Py_Map to_double0 [3, 4] [0, 0] callback0 pystate0)) = 0"
    by simp
  note u = trampoline_failure_status [where s = pystate0 and callback = callback_raises
      and to_double = to_double0
      and iline = "[1, 2]" and oline = "[0]" and buffer = "[1, 2]" and out = 0
      and ocoor = "[3, 4]" and icoor = "[0, 0]"
      and lines = "[]" and line = "([1, 2], [0])" and lines' = "[([3, 4], [0])]"
      and windows = "[]" and window = "[1, 2]" and windows' = "[[3, 4]]"
      and points = "[[0]]" and point = "[1]" and points' = "[[2]]"]
  note u4 = u [THEN conjunct2, THEN conjunct2, THEN conjunct2, THEN conjunct1]
  note u5 = u [THEN conjunct2, THEN conjunct2, THEN conjunct2, THEN conjunct2, THEN conjunct1]
  note u7 = u [THEN conjunct2, THEN conjunct2, THEN conjunct2, THEN conjunct2, THEN conjunct2,
      THEN conjunct2, THEN conjunct1]
  note u8 = u [THEN conjunct2, THEN conjunct2, THEN conjunct2, THEN conjunct2, THEN conjunct2,
      THEN conjunct2, THEN conjunct2, THEN conjunct1]
  have r4: "\<not> returned (py_function callback_raises a k)" for a k
    by (simp add: callback_raises_def)
  have r5: "\<not> returned_number to_double0 (py_function callback_raises a k)" for a k
    by (simp add: callback_raises_def)
  from u4 h r4 have f1: "fst (fst (Py_Filter1DFunc [1, 2] [0] callback_raises pystate0)) = 0"
    by simp
  from u5 h r5 have f2: "fst (fst (Py_FilterFunc to_double0 [1, 2] 0 callback_raises pystate0)) = 0"
    by simp
  have e1: "err (snd (Py_Filter1DFunc [1, 2] [0] callback_raises pystate0)) =
      Some (HostException ''ValueError'')"
    by (rule Py_Filter1DFunc_raised [where extras = "[]"])
      (simp_all add: pystate0_def callback_raises_def)
  have e2: "err (snd (Py_FilterFunc to_double0 [1, 2] 0 callback_raises pystate0)) =
      Some (HostException ''ValueError'')"
    by (rule Py_FilterFunc_raised [where extras = "[]"])
      (simp_all add: pystate0_def callback_raises_def)
  from u7 f1 have k1: "aborts_at (\<lambda>(iline, oline). Py_Filter1DFunc iline oline callback_raises)
      [] ([1, 2], [0]) [([3, 4], [0])] pystate0"
    by (simp add: fails_first_at_def)
  from u8 f2 have k2: "aborts_at (\<lambda>buffer. Py_FilterFunc to_double0 buffer 0 callback_raises)
      [] [1, 2] [[3, 4]] pystate0"
    by (simp add: fails_first_at_def)
  note v = trampoline_failure_status [where s = pystate0 and callback = callback1
      and to_double = to_double0
      and iline = "[1, 2]" and oline = "[0]" and buffer = "[1, 2]" and out = 0
      and ocoor = "[0]" and icoor = "[0]"
      and lines = "[]" and line = "([1, 2], [0])" and lines' = "[([3, 4], [0])]"
      and windows = "[]" and window = "[1, 2]" and windows' = "[[3, 4]]"
      and points = "[[0]]" and point = "[1]" and points' = "[[2]]"]
  note v9 = v [THEN conjunct2, THEN conjunct2, THEN conjunct2, THEN conjunct2, THEN conjunct2,
      THEN conjunct2, THEN conjunct2, THEN conjunct2]
  have m0: "Py_Map to_double0 [0] [0] callback1 pystate0 =
      ((1, [1]), \<lparr>err = None, budget = 6, calls = [(PyTuple [PyTuple [PyLong 0]], PyDict [])]\<rparr>)"
    by (simp add: Py_Map_def callback1_def pystate0_def py_alloc_def PyErr_Occurred_def
        Py_BuildValue_def PySequence_Concat_def PyObject_Call_def PyTuple_GetItem_def
        PyFloat_AsDouble_def to_double0_def exit_status_def Let_def)
  have m1: "Py_Map to_double0 [1] [0] callback1
        \<lparr>err = None, budget = 6, calls = [(PyTuple [PyTuple [PyLong 0]], PyDict [])]\<rparr> =
      ((0, [0]), \<lparr>err = Some (HostException ''ValueError''), budget = 2,
         calls = [(PyTuple [PyTuple [PyLong 0]], PyDict []),
                  (PyTuple [PyTuple [PyLong 1]], PyDict [])]\<rparr>)"
    by (simp add: Py_Map_def callback1_def py_alloc_def PyErr_Occurred_def PyErr_Set_def
        Py_BuildValue_def PySequence_Concat_def PyObject_Call_def exit_status_def Let_def)
  from v9 have k3: "aborts_at (\<lambda>ocoor. Py_Map to_double0 ocoor [0] callback1)
      [[0]] [1] [[2]] pystate0"
    by (simp add: fails_first_at_def m0 m1)
  from k1 e1 have w1: "kernel_run (\<lambda>(iline, oline). Py_Filter1DFunc iline oline callback_raises)
          [([1, 2], [0]), ([3, 4], [0])] pystate0 =
        ((0, []), snd (Py_Filter1DFunc [1, 2] [0] callback_raises pystate0))"
    by (simp add: aborts_at_def)
  from k2 e2 have w2: "kernel_run (\<lambda>buffer. Py_FilterFunc to_double0 buffer 0 callback_raises)
          [[1, 2], [3, 4]] pystate0 =
        ((0, []), snd (Py_FilterFunc to_double0 [1, 2] 0 callback_raises pystate0))"
    by (simp add: aborts_at_def)
  from k3 have w3: "kernel_run (\<lambda>ocoor. Py_Map to_double0 ocoor [0] callback1)
          [[0], [1], [2]] pystate0 =
        ((0, [[1]]), \<lparr>err = Some (HostException ''ValueError''), budget = 2,
           calls = [(PyTuple [PyTuple [PyLong 0]], PyDict []),
                    (PyTuple [PyTuple [PyLong 1]], PyDict [])]\<rparr>)"
    by (simp add: aborts_at_def m0 m1)
  show ?thesis
    using a b c e1 e2
    by (simp only: w1 w2 w3) (simp add: adapter_exit_def)
qed

text \<open>
  Counterexample to C8 as stated: for input rank 2 the callable returns a tuple of three
  numbers, a result of the wrong arity; \<^verbatim>\<open>Py_Map\<close> returns the success status 1 with the
  first two numbers as coordinates and no error set.
\<close>

theorem Py_Map_wrong_arity_counterexample:
  "fst (Py_Map to_double0 [3, 4] [0, 0] callback3 pystate0) = (1, [1, 2]) \<and>
   err (snd (Py_Map to_double0 [3, 4] [0, 0] callback3 pystate0)) = None"
  by (simp add: Py_Map_def callback3_def pystate0_def py_alloc_def PyErr_Occurred_def
      Py_BuildValue_def PySequence_Concat_def PyObject_Call_def PyTuple_GetItem_def
      PyFloat_AsDouble_def to_double0_def exit_status_def upt_2 Let_def)

subsection \<open>The handle of binary\_erosion2\<close>

text \<open>
  Claim C9, as the code has it: a handle that is not a capsule object makes
  \<^verbatim>\<open>Py_BinaryErosion2\<close> fail with the RuntimeError "cannot convert CObject", whatever the
  kernel is, and leaves the engine's state as it was: the kernel is not invoked. A capsule
  of any origin passes the check: the kernel is invoked with the pointer it holds (null
  when the capsule is named), and the call fails exactly when the kernel leaves an error.
\<close>

theorem Py_BinaryErosion2_handle:
  "(\<not> NpyCapsule_Check (cobj args) \<longrightarrow>
      Py_BinaryErosion2 engine (Inr args) st =
        (Inl (PyExc_RuntimeError ''cannot convert CObject''), st)) \<and>
   (NpyCapsule_Check (cobj args) \<longrightarrow>
      Py_BinaryErosion2 engine (Inr args) st =
        (case engine args (NpyCapsule_AsVoidPtr (cobj args)) st of
           (Some e, st') \<Rightarrow> (Inl e, st')
         | (None, st') \<Rightarrow> (Inr Py_None, st')))"
  by (simp add: Py_BinaryErosion2_def Let_def)

text \<open>
  Witness for C9: a list as handle is refused and nothing is recorded; the capsule of a
  coordinate list reaches the kernel.
\<close>

theorem Py_BinaryErosion2_handle_witness:
  "Py_BinaryErosion2 recording_engine (Inr (erosion_args0 (PyList []))) [] =
     (Inl (PyExc_RuntimeError ''cannot convert CObject''), []) \<and>
   Py_BinaryErosion2 recording_engine (Inr (erosion_args0 (PyCapsule (CoordinateList 1) None))) [] =
     (Inr Py_None, [CoordinateList 1])"
  using Py_BinaryErosion2_handle [of "erosion_args0 (PyList [])" recording_engine "[]"]
        Py_BinaryErosion2_handle [of "erosion_args0 (PyCapsule (CoordinateList 1) None)"
          recording_engine "[]"]
  by (simp add: erosion_args0_def recording_engine_def)

text \<open>
  Counterexample to C9 as stated: a capsule that holds a foreign pointer, and a named
  capsule of another module, are handles of the wrong kind; the call succeeds and the
  kernel has been invoked, with the foreign pointer in the first case and with a null
  pointer in the second.
\<close>

theorem Py_BinaryErosion2_foreign_capsule_counterexample:
  "Py_BinaryErosion2 recording_engine (Inr (erosion_args0 (PyCapsule (Foreign 7) None))) [] =
     (Inr Py_None, [Foreign 7]) \<and>
   Py_BinaryErosion2 recording_engine
       (Inr (erosion_args0 (PyCapsule (Foreign 7) (Some ''other'')))) [] =
     (Inr Py_None, [NULL])"
  by (simp add: Py_BinaryErosion2_def erosion_args0_def recording_engine_def)

end
